theory Spec2Isabelle
  imports Complex_Main "HOL-Library.AList"
begin

section \<open>Python values\<close>

text \<open>
  Coordinates and lengths are Python floats; they are taken as real numbers, so NaN,
  infinities and the last-bit error of a float operation are outside the model.
\<close>

datatype error =
  IndexError | KeyError | NotImplementedError | ValueError | TypeError | DatabaseError

text \<open>
  Python's \<open>round\<close> rounds to the nearest value and a tie to the even neighbour.
  \<open>round(x)\<close> gives an int, \<open>round(x, n)\<close> a float with n decimal digits.
\<close>

definition round_half_even :: "real \<Rightarrow> int" where
  "round_half_even x =
     (let f = \<lfloor>x\<rfloor>; d = x - of_int f
      in if d < 1 / 2 then f else if 1 / 2 < d then f + 1 else if even f then f else f + 1)"

definition py_round :: "real \<Rightarrow> nat \<Rightarrow> real" where
  "py_round x n = of_int (round_half_even (x * 10 ^ n)) / 10 ^ n"

text \<open>\<open>xs[0]\<close> and \<open>xs[-1]\<close> raise IndexError on an empty sequence.\<close>

definition index_first :: "'a list \<Rightarrow> error + 'a" where
  "index_first xs = (case xs of [] \<Rightarrow> Inl IndexError | x # _ \<Rightarrow> Inr x)"

definition index_last :: "'a list \<Rightarrow> error + 'a" where
  "index_last xs = (if xs = [] then Inl IndexError else Inr (last xs))"

text \<open>\<open>str(n)\<close> of an int: its decimal digits, with a minus sign when negative.\<close>

definition digit_char :: "nat \<Rightarrow> char" where
  "digit_char d = ''0123456789'' ! d"

function str_nat :: "nat \<Rightarrow> string" where
  "str_nat n = (if n < 10 then [digit_char n] else str_nat (n div 10) @ [digit_char (n mod 10)])"
  by pat_completeness auto
termination
  by (relation "measure (\<lambda>n. n)") auto

definition str_int :: "int \<Rightarrow> string" where
  "str_int i = (if i < 0 then CHR ''-'' # str_nat (nat (- i)) else str_nat (nat i))"

section \<open>Geometries (shapely)\<close>

text \<open>
  A coordinate is (x, y) = (longitude, latitude). The geometry kinds the builder tells
  apart: one with a coordinate sequence of its own (\<open>LineString\<close>; a Point or a
  LinearRing behaves the same way), a \<open>MultiLineString\<close> (its parts), and the kinds
  whose \<open>.coords\<close> raises NotImplementedError and that are no MultiLineString
  (\<open>Polygon\<close>, given by its shell, stands for them).
\<close>

type_synonym coord = "real \<times> real"

datatype geometry =
    LineString "coord list"
  | MultiLineString "coord list list"
  | Polygon "coord list"

fun is_empty :: "geometry \<Rightarrow> bool" where
  "is_empty (LineString cs) = (cs = [])"
| "is_empty (MultiLineString parts) = list_all (\<lambda>p. p = []) parts"
| "is_empty (Polygon cs) = (cs = [])"

fun coords :: "geometry \<Rightarrow> error + coord list" where
  "coords (LineString cs) = Inr cs"
| "coords (MultiLineString parts) = Inl NotImplementedError"
| "coords (Polygon cs) = Inl NotImplementedError"

text \<open>\<open>geom.length\<close>: the planar (Euclidean) length, in the units of the coordinates.\<close>

definition dist2d :: "coord \<Rightarrow> coord \<Rightarrow> real" where
  "dist2d p q = sqrt ((fst q - fst p)\<^sup>2 + (snd q - snd p)\<^sup>2)"

fun path_length :: "coord list \<Rightarrow> real" where
  "path_length (p # q # cs) = dist2d p q + path_length (q # cs)"
| "path_length cs = 0"

fun geom_length :: "geometry \<Rightarrow> real" where
  "geom_length (LineString cs) = path_length cs"
| "geom_length (MultiLineString parts) = sum_list (map path_length parts)"
| "geom_length (Polygon cs) = path_length cs"

section \<open>The topology builder (shapefiles/upload_data.py)\<close>

text \<open>
  A GeoDataFrame: the geometry column (None for a missing geometry), one entry per row,
  and the other columns by name, in column order. Assigning a column whose name exists
  overwrites it in place; a new name is appended; a list of the wrong length raises
  ValueError.
\<close>

datatype cell = CNone | CInt int | CFloat real | CStr string

record geodataframe =
  geometry :: "geometry option list"
  columns :: "(string \<times> cell list) list"

definition set_column :: "string \<Rightarrow> cell list \<Rightarrow> geodataframe \<Rightarrow> error + geodataframe" where
  "set_column name vals gdf =
     (if length vals \<noteq> length (geometry gdf) then Inl ValueError
      else Inr (gdf\<lparr>columns := AList.update name vals (columns gdf)\<rparr>))"

text \<open>
  The local variables of \<open>build_topology_in_python\<close>. \<open>nodes\<close> is the dict from
  rounded coordinate to node id, kept in insertion order as Python keeps it.
\<close>

record topo_state =
  nodes :: "(coord \<times> nat) list"
  node_counter :: nat
  sources :: "nat option list"
  targets :: "nat option list"
  costs :: "real list"

definition init_state :: topo_state where
  "init_state = \<lparr>nodes = [], node_counter = 1, sources = [], targets = [], costs = []\<rparr>"

definition round_coord :: "coord \<Rightarrow> coord" where
  "round_coord c = (py_round (fst c) 6, py_round (snd c) 6)"

text \<open>The body of the \<open>try\<close> block: first and last coordinate of \<open>geom.coords\<close>, rounded.\<close>

definition try_ends :: "geometry \<Rightarrow> error + (coord \<times> coord)" where
  "try_ends geom =
     (case coords geom of
        Inl e \<Rightarrow> Inl e
      | Inr cs \<Rightarrow>
          (case index_first cs of
             Inl e \<Rightarrow> Inl e
           | Inr a \<Rightarrow>
               (case index_last cs of
                  Inl e \<Rightarrow> Inl e
                | Inr b \<Rightarrow> Inr (round_coord a, round_coord b))))"

text \<open>
  The \<open>try\<close> statement with its handler. \<open>Inr None\<close> is the handler's \<open>continue\<close>;
  an IndexError raised inside the handler is not caught.
\<close>

definition line_ends :: "geometry \<Rightarrow> error + (coord \<times> coord) option" where
  "line_ends geom =
     (case try_ends geom of
        Inr p \<Rightarrow> Inr (Some p)
      | Inl NotImplementedError \<Rightarrow>
          (case geom of
             MultiLineString geoms \<Rightarrow>
               (case index_first geoms of
                  Inl e \<Rightarrow> Inl e
                | Inr first_line \<Rightarrow>
                    (case index_last geoms of
                       Inl e \<Rightarrow> Inl e
                     | Inr last_line \<Rightarrow>
                         (case index_first first_line of
                            Inl e \<Rightarrow> Inl e
                          | Inr a \<Rightarrow>
                              (case index_last last_line of
                                 Inl e \<Rightarrow> Inl e
                               | Inr b \<Rightarrow> Inr (Some (round_coord a, round_coord b))))))
           | _ \<Rightarrow> Inr None)
      | Inl e \<Rightarrow> Inl e)"

definition add_node :: "coord \<Rightarrow> topo_state \<Rightarrow> topo_state" where
  "add_node c st =
     (if map_of (nodes st) c = None
      then st\<lparr>nodes := nodes st @ [(c, node_counter st)], node_counter := node_counter st + 1\<rparr>
      else st)"

definition append_null :: "topo_state \<Rightarrow> topo_state" where
  "append_null st =
     st\<lparr>sources := sources st @ [None], targets := targets st @ [None], costs := costs st @ [0]\<rparr>"

text \<open>One pass of the loop body over a row's geometry.\<close>

definition process_row :: "geometry option \<Rightarrow> topo_state \<Rightarrow> error + topo_state" where
  "process_row g st =
     (case g of
        None \<Rightarrow> Inr (append_null st)
      | Some geom \<Rightarrow>
          if is_empty geom then Inr (append_null st)
          else
            (case line_ends geom of
               Inl e \<Rightarrow> Inl e
             | Inr None \<Rightarrow> Inr st
             | Inr (Some (start_coord, end_coord)) \<Rightarrow>
                 (let st2 = add_node end_coord (add_node start_coord st)
                  in case map_of (nodes st2) start_coord of
                       None \<Rightarrow> Inl KeyError
                     | Some s \<Rightarrow>
                         (case map_of (nodes st2) end_coord of
                            None \<Rightarrow> Inl KeyError
                          | Some t \<Rightarrow>
                              Inr (st2\<lparr>sources := sources st2 @ [Some s],
                                       targets := targets st2 @ [Some t],
                                       costs := costs st2 @ [geom_length geom]\<rparr>)))))"

fun iterrows :: "geometry option list \<Rightarrow> topo_state \<Rightarrow> error + topo_state" where
  "iterrows [] st = Inr st"
| "iterrows (g # gs) st =
     (case process_row g st of Inl e \<Rightarrow> Inl e | Inr st' \<Rightarrow> iterrows gs st')"

definition id_cell :: "nat option \<Rightarrow> cell" where
  "id_cell v = (case v of None \<Rightarrow> CNone | Some n \<Rightarrow> CInt (int n))"

text \<open>A row of the node table: \<open>{'id': v, 'geometry': Point(k)}\<close>.\<close>

record node_row =
  node_id :: nat
  point :: coord

definition node_data :: "(coord \<times> nat) list \<Rightarrow> node_row list" where
  "node_data ns = map (\<lambda>(k, v). \<lparr>node_id = v, point = k\<rparr>) ns"

text \<open>
  \<open>gpd.GeoDataFrame(node_data, crs=gdf.crs)\<close>. A frame made from an empty list has no
  geometry column, and geopandas refuses to set a crs on such a frame: ValueError. The
  input frame is taken to have a crs, as every frame \<open>setup_database\<close> hands over has
  (\<open>to_crs\<close> refuses a frame without one).
\<close>

definition node_frame :: "node_row list \<Rightarrow> error + node_row list" where
  "node_frame rows = (if rows = [] then Inl ValueError else Inr rows)"

text \<open>
  The function takes the GeoDataFrame and returns the frame it was given, with the four
  columns assigned on it, and the node table. The first component of the result is the
  state of the caller's frame after the call.
\<close>

definition build_topology_in_python ::
    "geodataframe \<Rightarrow> error + (geodataframe \<times> node_row list)" where
  "build_topology_in_python gdf =
     (case iterrows (geometry gdf) init_state of
        Inl e \<Rightarrow> Inl e
      | Inr st \<Rightarrow>
          (case set_column ''source'' (map id_cell (sources st)) gdf of
             Inl e \<Rightarrow> Inl e
           | Inr g1 \<Rightarrow>
               (case set_column ''target'' (map id_cell (targets st)) g1 of
                  Inl e \<Rightarrow> Inl e
                | Inr g2 \<Rightarrow>
                    (case set_column ''cost'' (map CFloat (costs st)) g2 of
                       Inl e \<Rightarrow> Inl e
                     | Inr g3 \<Rightarrow>
                         (case set_column ''reverse_cost'' (map CFloat (costs st)) g3 of
                            Inl e \<Rightarrow> Inl e
                          | Inr g4 \<Rightarrow>
                              (case node_frame (node_data (nodes st)) of
                                 Inl e \<Rightarrow> Inl e
                               | Inr nodes_gdf \<Rightarrow> Inr (g4, nodes_gdf)))))))"

text \<open>
  The call as the caller sees it: frames live in a store and are passed by reference.
  The function writes the four columns into the frame it was handed and returns that
  same reference.
\<close>

type_synonym store = "nat \<Rightarrow> geodataframe"

definition call_build_topology ::
    "store \<Rightarrow> nat \<Rightarrow> error + (store \<times> nat \<times> node_row list)" where
  "call_build_topology h r =
     (case build_topology_in_python (h r) of
        Inl e \<Rightarrow> Inl e
      | Inr (g, ns) \<Rightarrow> Inr (h(r := g), r, ns))"

subsection \<open>Loading the road table (setup_database, step D)\<close>

text \<open>
  The frame returned by the builder is uploaded as table \<open>roads\<close>; the table gets an
  \<open>id\<close> column numbered from 1 unless it has one; \<open>cost\<close> is overwritten with
  \<open>ST_Length(geom::geography)\<close> and \<open>reverse_cost\<close> with \<open>cost\<close>. The database's
  \<open>ST_Length\<close> on a geography is the parameter \<open>st_length\<close> (None is SQL NULL). The
  table is modelled by the frame type; the index column that the upload adds is read by
  no query and is left out.
\<close>

definition real_cell :: "real option \<Rightarrow> cell" where
  "real_cell v = (case v of None \<Rightarrow> CNone | Some x \<Rightarrow> CFloat x)"

definition add_serial_id :: "geodataframe \<Rightarrow> geodataframe" where
  "add_serial_id t =
     (if map_of (columns t) ''id'' = None
      then t\<lparr>columns := columns t @ [(''id'', map (\<lambda>i. CInt (int i)) [1..<Suc (length (geometry t))])]\<rparr>
      else t)"

definition update_cost :: "(geometry option \<Rightarrow> real option) \<Rightarrow> geodataframe \<Rightarrow> error + geodataframe" where
  "update_cost st_length t =
     (case map_of (columns t) ''cost'' of
        None \<Rightarrow> Inl DatabaseError
      | Some old \<Rightarrow>
          Inr (t\<lparr>columns := AList.update ''cost'' (map (\<lambda>g. real_cell (st_length g)) (geometry t)) (columns t)\<rparr>))"

definition update_reverse_cost :: "geodataframe \<Rightarrow> error + geodataframe" where
  "update_reverse_cost t =
     (case map_of (columns t) ''reverse_cost'' of
        None \<Rightarrow> Inl DatabaseError
      | Some old \<Rightarrow>
          (case map_of (columns t) ''cost'' of
             None \<Rightarrow> Inl DatabaseError
           | Some c \<Rightarrow> Inr (t\<lparr>columns := AList.update ''reverse_cost'' c (columns t)\<rparr>)))"

definition setup_roads ::
    "(geometry option \<Rightarrow> real option) \<Rightarrow> geodataframe \<Rightarrow> error + (geodataframe \<times> node_row list)" where
  "setup_roads st_length gdf =
     (case build_topology_in_python gdf of
        Inl e \<Rightarrow> Inl e
      | Inr (roads_with_topo, nodes_gdf) \<Rightarrow>
          (case update_cost st_length (add_serial_id roads_with_topo) of
             Inl e \<Rightarrow> Inl e
           | Inr t1 \<Rightarrow>
               (case update_reverse_cost t1 of
                  Inl e \<Rightarrow> Inl e
                | Inr t2 \<Rightarrow> Inr (t2, nodes_gdf))))"

text \<open>
  The edge query both route handlers give to the path search:
  \<open>SELECT id, source, target, cost, reverse_cost FROM roads\<close>, every row of the table.
\<close>

record edge_row =
  edge_id :: cell
  edge_source :: cell
  edge_target :: cell
  edge_cost :: cell
  edge_reverse_cost :: cell

definition edges_sql :: "geodataframe \<Rightarrow> error + edge_row list" where
  "edges_sql roads =
     (case map_of (columns roads) ''id'' of None \<Rightarrow> Inl DatabaseError | Some ids \<Rightarrow>
      case map_of (columns roads) ''source'' of None \<Rightarrow> Inl DatabaseError | Some ss \<Rightarrow>
      case map_of (columns roads) ''target'' of None \<Rightarrow> Inl DatabaseError | Some ts \<Rightarrow>
      case map_of (columns roads) ''cost'' of None \<Rightarrow> Inl DatabaseError | Some cs \<Rightarrow>
      case map_of (columns roads) ''reverse_cost'' of None \<Rightarrow> Inl DatabaseError | Some rs \<Rightarrow>
        Inr (map (\<lambda>(i, s, t, c, r).
                    \<lparr>edge_id = i, edge_source = s, edge_target = t, edge_cost = c,
                     edge_reverse_cost = r\<rparr>)
               (zip ids (zip ss (zip ts (zip cs rs))))))"

subsection \<open>Geographic length\<close>

text \<open>
  The length of a line over the earth's surface, in metres: the great-circle distance
  between consecutive coordinates (longitude, latitude in degrees) on a sphere of the
  earth's mean radius. It is what the planar length of the builder is compared with.
\<close>

definition radians :: "real \<Rightarrow> real" where
  "radians d = d * pi / 180"

definition great_circle :: "coord \<Rightarrow> coord \<Rightarrow> real" where
  "great_circle p q =
     63710088 / 10 *
       arccos (sin (radians (snd p)) * sin (radians (snd q)) +
               cos (radians (snd p)) * cos (radians (snd q)) * cos (radians (fst q - fst p)))"

fun geographic_path_length :: "coord list \<Rightarrow> real" where
  "geographic_path_length (p # q # cs) = great_circle p q + geographic_path_length (q # cs)"
| "geographic_path_length cs = 0"

fun geographic_length :: "geometry \<Rightarrow> real" where
  "geographic_length (LineString cs) = geographic_path_length cs"
| "geographic_length (MultiLineString parts) = sum_list (map geographic_path_length parts)"
| "geographic_length (Polygon cs) = geographic_path_length cs"


section \<open>The query service (app.py)\<close>

text \<open>
  The spatial database is outside the repository. Each query a handler sends is a field
  of \<open>database\<close>, a function of the query's parameters; None is "no row" (or SQL
  NULL for a single value). A handler is modelled with the connection established.

  \<^item> \<open>sql_find_closest search_term lng lat\<close>: name, category, x and y of the nearest
    point feature whose category matches;
  \<^item> \<open>sql_nearest_node lng lat\<close>: the id of the nearest row of roads_vertices_pgr;
  \<^item> \<open>sql_route_union start_node end_node\<close>: the row of \<open>get_nearest\<close>'s route query,
    the GeoJSON text of the union of the path's geometries and the sum of their costs;
  \<^item> \<open>sql_route start_node end_node\<close>: the JSON object of \<open>get_route\<close>'s route query;
  \<^item> \<open>sql_st_distance lng lat target_lng target_lat\<close>: ST_Distance of the two points
    as geographies.
\<close>

record db_collection =
  db_type :: string
  db_features :: "string list option"

record database =
  sql_find_closest :: "string \<Rightarrow> real \<Rightarrow> real \<Rightarrow> (string \<times> string \<times> real \<times> real) option"
  sql_nearest_node :: "real \<Rightarrow> real \<Rightarrow> nat option"
  sql_route_union :: "nat \<Rightarrow> nat \<Rightarrow> (string option \<times> real option) option"
  sql_route :: "nat \<Rightarrow> nat \<Rightarrow> db_collection option"
  sql_st_distance :: "real \<Rightarrow> real \<Rightarrow> real \<Rightarrow> real \<Rightarrow> real"

text \<open>
  The GeoJSON the handlers build. \<open>RawGeoJSON\<close> is \<open>json.loads\<close> of a text the
  database produced, kept as that text.
\<close>

datatype json_geometry =
    PointGeom "real list"
  | LineStringGeom "real list list"
  | RawGeoJSON string

datatype pvalue = PStr string | PBool bool

record feature =
  feature_type :: string
  feature_geometry :: json_geometry
  properties :: "(string \<times> pvalue) list"

record feature_collection =
  collection_type :: string
  features :: "feature list"

subsection \<open>get_route\<close>

text \<open>\<open>cur.fetchone()[0]\<close> on a query without rows subscripts None: TypeError.\<close>

definition get_route ::
    "database \<Rightarrow> real \<Rightarrow> real \<Rightarrow> real \<Rightarrow> real \<Rightarrow> error + db_collection" where
  "get_route db start_lat start_lng end_lat end_lng =
     (case sql_nearest_node db start_lng start_lat of
        None \<Rightarrow> Inl TypeError
      | Some start_node \<Rightarrow>
          (case sql_nearest_node db end_lng end_lat of
             None \<Rightarrow> Inl TypeError
           | Some end_node \<Rightarrow>
               (case sql_route db start_node end_node of
                  None \<Rightarrow> Inr \<lparr>db_type = ''FeatureCollection'', db_features = Some []\<rparr>
                | Some result \<Rightarrow> Inr result)))"

subsection \<open>get_nearest\<close>

definition destination_point :: "string \<Rightarrow> string \<Rightarrow> real \<Rightarrow> real \<Rightarrow> feature" where
  "destination_point target_name target_cat target_lng target_lat =
     \<lparr>feature_type = ''Feature'',
      feature_geometry = PointGeom [target_lng, target_lat],
      properties = [(''name'', PStr target_name), (''category'', PStr target_cat),
                    (''is_target'', PBool True)]\<rparr>"

definition road_route :: "string \<Rightarrow> int \<Rightarrow> feature" where
  "road_route route_geom total_dist =
     \<lparr>feature_type = ''Feature'',
      feature_geometry = RawGeoJSON route_geom,
      properties = [(''type'', PStr ''route''),
                    (''distance_msg'', PStr (''Road Distance: '' @ str_int total_dist @ ''m''))]\<rparr>"

definition straight_line :: "real \<Rightarrow> real \<Rightarrow> real \<Rightarrow> real \<Rightarrow> int \<Rightarrow> feature" where
  "straight_line lng lat target_lng target_lat straight_dist =
     \<lparr>feature_type = ''Feature'',
      feature_geometry = LineStringGeom [[lng, lat], [target_lng, target_lat]],
      properties = [(''type'', PStr ''route''), (''style'', PStr ''dashed''),
                    (''distance_msg'',
                     PStr (''Straight Distance: '' @ str_int straight_dist @ ''m (No road path)''))]\<rparr>"

text \<open>
  \<open>route_res\<close>: the route query is sent only when both snaps gave a row. The road branch
  is taken when the row is there and its GeoJSON text is truthy (not NULL, not empty);
  \<open>round\<close> of a NULL sum raises TypeError.
\<close>

definition route_res :: "database \<Rightarrow> real \<Rightarrow> real \<Rightarrow> real \<Rightarrow> real \<Rightarrow> (string option \<times> real option) option" where
  "route_res db lng lat target_lng target_lat =
     (case sql_nearest_node db lng lat of
        None \<Rightarrow> None
      | Some start_node \<Rightarrow>
          (case sql_nearest_node db target_lng target_lat of
             None \<Rightarrow> None
           | Some end_node \<Rightarrow> sql_route_union db start_node end_node))"

definition get_nearest ::
    "database \<Rightarrow> real \<Rightarrow> real \<Rightarrow> string \<Rightarrow> error + feature_collection" where
  "get_nearest db lat lng category =
     (let search_term = ''%'' @ category @ ''%''
      in case sql_find_closest db search_term lng lat of
           None \<Rightarrow> Inr \<lparr>collection_type = ''FeatureCollection'', features = []\<rparr>
         | Some (target_name, target_cat, target_lng, target_lat) \<Rightarrow>
             (let dest = destination_point target_name target_cat target_lng target_lat;
                  fallback =
                    Inr \<lparr>collection_type = ''FeatureCollection'',
                         features = [dest,
                           straight_line lng lat target_lng target_lat
                             (round_half_even (sql_st_distance db lng lat target_lng target_lat))]\<rparr>
              in case route_res db lng lat target_lng target_lat of
                   None \<Rightarrow> fallback
                 | Some (None, cost_sum) \<Rightarrow> fallback
                 | Some (Some route_geom, cost_sum) \<Rightarrow>
                     if route_geom = [] then fallback
                     else
                       (case cost_sum of
                          None \<Rightarrow> Inl TypeError
                        | Some total_cost \<Rightarrow>
                            Inr \<lparr>collection_type = ''FeatureCollection'',
                                 features = [dest, road_route route_geom (round_half_even total_cost)]\<rparr>)))"


section \<open>Notions used in the statements\<close>

text \<open>
  The kinds of row the loop body tells apart: a missing or empty geometry; a row the
  handler's \<open>continue\<close> leaves without an entry in the three lists; a row with end
  coordinates (\<open>row_ends\<close>, rounded as the loop rounds them).
\<close>

definition null_or_empty :: "geometry option \<Rightarrow> bool" where
  "null_or_empty g = (case g of None \<Rightarrow> True | Some geom \<Rightarrow> is_empty geom)"

definition row_ends :: "geometry option \<Rightarrow> (coord \<times> coord) option" where
  "row_ends g =
     (case g of
        None \<Rightarrow> None
      | Some geom \<Rightarrow>
          if is_empty geom then None
          else (case line_ends geom of Inr (Some p) \<Rightarrow> Some p | _ \<Rightarrow> None))"

definition dropped :: "geometry option \<Rightarrow> bool" where
  "dropped g =
     (case g of None \<Rightarrow> False | Some geom \<Rightarrow> \<not> is_empty geom \<and> line_ends geom = Inr None)"

text \<open>
  The rows on which the loop body neither raises nor skips the accounting: no geometry,
  a LineString, a MultiLineString that is empty or has a first and a last part with
  coordinates, an empty geometry of another kind.
\<close>

fun ok_row :: "geometry option \<Rightarrow> bool" where
  "ok_row None = True"
| "ok_row (Some (LineString cs)) = True"
| "ok_row (Some (MultiLineString parts)) =
     (list_all (\<lambda>p. p = []) parts \<or> (hd parts \<noteq> [] \<and> last parts \<noteq> []))"
| "ok_row (Some (Polygon cs)) = (cs = [])"

text \<open>The rounded end coordinates of all rows, in the order the loop meets them.\<close>

definition endpoint_keys :: "geometry option list \<Rightarrow> coord list" where
  "endpoint_keys rows =
     concat (map (\<lambda>g. case row_ends g of None \<Rightarrow> [] | Some (s, e) \<Rightarrow> [s, e]) rows)"

text \<open>A list without its repetitions, each element at its first occurrence.\<close>

definition ins :: "'a \<Rightarrow> 'a list \<Rightarrow> 'a list" where
  "ins k ks = (if k \<in> set ks then ks else ks @ [k])"

definition first_seen_from :: "'a list \<Rightarrow> 'a list \<Rightarrow> 'a list" where
  "first_seen_from ks xs = foldl (\<lambda>a k. ins k a) ks xs"

definition first_seen :: "'a list \<Rightarrow> 'a list" where
  "first_seen xs = first_seen_from [] xs"

text \<open>The loop invariant on the node dict: ids 1, 2, ... in insertion order, keys distinct.\<close>

definition nodes_ok :: "topo_state \<Rightarrow> bool" where
  "nodes_ok st \<longleftrightarrow>
     map snd (nodes st) = [1..<node_counter st] \<and> distinct (map fst (nodes st)) \<and>
     1 \<le> node_counter st"

text \<open>What a row's entries in the three lists are, given the final node dict.\<close>

definition row_source :: "(coord \<rightharpoonup> nat) \<Rightarrow> geometry option \<Rightarrow> nat option" where
  "row_source m g = (case row_ends g of None \<Rightarrow> None | Some (s, e) \<Rightarrow> m s)"

definition row_target :: "(coord \<rightharpoonup> nat) \<Rightarrow> geometry option \<Rightarrow> nat option" where
  "row_target m g = (case row_ends g of None \<Rightarrow> None | Some (s, e) \<Rightarrow> m e)"

definition row_cost :: "geometry option \<Rightarrow> real" where
  "row_cost g =
     (case g of None \<Rightarrow> 0 | Some geom \<Rightarrow> if is_empty geom then 0 else geom_length geom)"

text \<open>A column of a frame by name, and the node table read as a dict again.\<close>

definition column :: "geodataframe \<Rightarrow> string \<Rightarrow> cell list option" where
  "column gdf name = map_of (columns gdf) name"

definition node_dict :: "node_row list \<Rightarrow> (coord \<rightharpoonup> nat)" where
  "node_dict ns = map_of (map (\<lambda>n. (point n, node_id n)) ns)"

definition topology_columns :: "string set" where
  "topology_columns = {''source'', ''target'', ''cost'', ''reverse_cost''}"

text \<open>
  The end coordinates of a row as they are in the geometry, before rounding: the first
  coordinate of the line (of its first part) and the last coordinate (of its last part).
\<close>

definition raw_ends :: "geometry option \<Rightarrow> (coord \<times> coord) option" where
  "raw_ends g =
     (case g of
        None \<Rightarrow> None
      | Some (LineString cs) \<Rightarrow> if cs = [] then None else Some (hd cs, last cs)
      | Some (MultiLineString parts) \<Rightarrow>
          if list_all (\<lambda>p. p = []) parts \<or> hd parts = [] \<or> last parts = [] then None
          else Some (hd (hd parts), last (last parts))
      | Some (Polygon cs) \<Rightarrow> None)"

definition raw_endpoints :: "geometry option list \<Rightarrow> coord list" where
  "raw_endpoints rows =
     concat (map (\<lambda>g. case raw_ends g of None \<Rightarrow> [] | Some (a, b) \<Rightarrow> [a, b]) rows)"

text \<open>Every column of a frame has one entry per row.\<close>

definition frame_ok :: "geodataframe \<Rightarrow> bool" where
  "frame_ok gdf \<longleftrightarrow> (\<forall>c\<in>set (columns gdf). length (snd c) = length (geometry gdf))"

subsection \<open>The nearest-facility response\<close>

text \<open>
  What the handler's branches test: \<open>if not target\<close>, and
  \<open>if route_res and route_res[0]\<close>; and the one input on which \<open>round(route_res[1])\<close>
  raises, a route row with a geometry and a NULL sum.
\<close>

definition facility_found :: "database \<Rightarrow> real \<Rightarrow> real \<Rightarrow> string \<Rightarrow> bool" where
  "facility_found db lat lng category \<longleftrightarrow>
     sql_find_closest db (''%'' @ category @ ''%'') lng lat \<noteq> None"

definition road_path_found :: "database \<Rightarrow> real \<Rightarrow> real \<Rightarrow> string \<Rightarrow> bool" where
  "road_path_found db lat lng category \<longleftrightarrow>
     (case sql_find_closest db (''%'' @ category @ ''%'') lng lat of
        None \<Rightarrow> False
      | Some (target_name, target_cat, target_lng, target_lat) \<Rightarrow>
          (case route_res db lng lat target_lng target_lat of
             Some (Some route_geom, cost_sum) \<Rightarrow> route_geom \<noteq> []
           | _ \<Rightarrow> False))"

definition cost_sum_present :: "database \<Rightarrow> real \<Rightarrow> real \<Rightarrow> string \<Rightarrow> bool" where
  "cost_sum_present db lat lng category \<longleftrightarrow>
     (case sql_find_closest db (''%'' @ category @ ''%'') lng lat of
        None \<Rightarrow> True
      | Some (target_name, target_cat, target_lng, target_lat) \<Rightarrow>
          (case route_res db lng lat target_lng target_lat of
             Some (Some route_geom, None) \<Rightarrow> route_geom = []
           | _ \<Rightarrow> True))"

text \<open>
  The three responses, as a caller can tell them apart from the response alone: no
  feature; a second feature without a style property; a second feature with style dashed.
  \<open>get_prop\<close> reads a property of a feature.
\<close>

definition get_prop :: "feature \<Rightarrow> string \<Rightarrow> pvalue option" where
  "get_prop f key = map_of (properties f) key"

definition empty_result :: "feature_collection \<Rightarrow> bool" where
  "empty_result fc \<longleftrightarrow> features fc = []"

definition network_result :: "feature_collection \<Rightarrow> bool" where
  "network_result fc \<longleftrightarrow>
     length (features fc) = 2 \<and> get_prop (features fc ! 1) ''type'' = Some (PStr ''route'') \<and>
     get_prop (features fc ! 1) ''style'' = None"

definition straight_result :: "feature_collection \<Rightarrow> bool" where
  "straight_result fc \<longleftrightarrow>
     length (features fc) = 2 \<and> get_prop (features fc ! 1) ''type'' = Some (PStr ''route'') \<and>
     get_prop (features fc ! 1) ''style'' = Some (PStr ''dashed'')"

text \<open>
  A database for the examples: the facility and the route row are given, every snap
  finds a vertex, and the two points are 234.5 m apart.
\<close>

definition example_db ::
    "(string \<times> string \<times> real \<times> real) option \<Rightarrow> (string option \<times> real option) option \<Rightarrow> database" where
  "example_db facility route_row =
     \<lparr>sql_find_closest = (\<lambda>search_term lng lat. facility),
      sql_nearest_node = (\<lambda>lng lat. if lng = 0 then Some 1 else Some 2),
      sql_route_union = (\<lambda>start_node end_node. route_row),
      sql_route = (\<lambda>start_node end_node. None),
      sql_st_distance = (\<lambda>lng lat target_lng target_lat. 469 / 2)\<rparr>"

definition example_bank :: "string \<times> string \<times> real \<times> real" where
  "example_bank = (''First Bank'', ''Bank'', 3, 4)"

definition example_geojson :: string where
  \<open>example_geojson = ''{"type":"LineString","coordinates":[[0,0],[3,4]]}''\<close>

definition example_path :: "string option \<times> real option" where
  "example_path = (Some example_geojson, Some (1201 / 2))"

definition no_path :: "string option \<times> real option" where
  "no_path = (None, None)"

section \<open>Example inputs\<close>

text \<open>
  Three rows: a line from (0, 0) to (3, 4); a row without geometry; a two-part line that
  starts within rounding distance of (3, 4) and ends at (0, 7). A name column, and a
  cost column that the source data already had.
\<close>

definition example_roads :: geodataframe where
  "example_roads =
     \<lparr>geometry =
        [Some (LineString [(0, 0), (3, 4)]),
         None,
         Some (MultiLineString [[(30000001 / 10000000, 4), (30000001 / 10000000, 7)],
                                [(3, 7), (0, 7)]])],
      columns = [(''name'', [CStr ''A'', CStr ''B'', CStr ''C'']),
                 (''cost'', [CStr ''toll'', CStr ''free'', CStr ''toll''])]\<rparr>"

definition example_built :: geodataframe where
  "example_built =
     \<lparr>geometry = geometry example_roads,
      columns = [(''name'', [CStr ''A'', CStr ''B'', CStr ''C'']),
                 (''cost'', [CFloat 5, CFloat 0, CFloat 6]),
                 (''source'', [CInt 1, CNone, CInt 2]),
                 (''target'', [CInt 2, CNone, CInt 3]),
                 (''reverse_cost'', [CFloat 5, CFloat 0, CFloat 6])]\<rparr>"

definition example_nodes :: "node_row list" where
  "example_nodes =
     [\<lparr>node_id = 1, point = (0, 0)\<rparr>, \<lparr>node_id = 2, point = (3, 4)\<rparr>,
      \<lparr>node_id = 3, point = (0, 7)\<rparr>]"

text \<open>
  A store whose every reference holds the example frame, and the frame a reference holds
  after the builder was called on it.
\<close>

definition example_store :: store where
  "example_store = (\<lambda>r. example_roads)"

definition frame_after :: "store \<Rightarrow> nat \<Rightarrow> geodataframe option" where
  "frame_after h r =
     (case call_build_topology h r of
        Inl e \<Rightarrow> None
      | Inr (h', r', ns) \<Rightarrow> Some (h' r))"

section \<open>The loop body\<close>

lemma add_node_keys: "map fst (nodes (add_node c st)) = ins c (map fst (nodes st))"
  by (simp add: add_node_def ins_def map_of_eq_None_iff)

lemma add_node_ok: "nodes_ok st \<Longrightarrow> nodes_ok (add_node c st)"
  by (auto simp: add_node_def nodes_ok_def map_of_eq_None_iff)

lemma add_node_self: "map_of (nodes (add_node c st)) c \<noteq> None"
  by (auto simp: add_node_def map_add_def)

lemma add_node_mono: "map_of (nodes st) k = Some v \<Longrightarrow> map_of (nodes (add_node c st)) k = Some v"
  by (auto simp: add_node_def map_add_Some_iff)

lemma add_node_frame: "sources (add_node c st) = sources st" "targets (add_node c st) = targets st" "costs (add_node c st) = costs st"
  by (auto simp: add_node_def)

text \<open>What one pass of the loop body does, by the kind of row.\<close>

lemma process_row_null: "null_or_empty g \<Longrightarrow> process_row g st = Inr (append_null st)"
  by (auto simp: process_row_def null_or_empty_def split: option.splits)

lemma process_row_dropped: "dropped g \<Longrightarrow> process_row g st = Inr st"
  by (auto simp: process_row_def dropped_def split: option.splits)

lemma process_row_ends:
  assumes "row_ends g = Some (s, e)"
  shows "\<exists>geom i j. g = Some geom \<and> map_of (nodes (add_node e (add_node s st))) s = Some i \<and>
           map_of (nodes (add_node e (add_node s st))) e = Some j \<and>
           process_row g st = Inr ((add_node e (add_node s st))\<lparr>
              sources := sources st @ [Some i],
              targets := targets st @ [Some j],
              costs := costs st @ [geom_length geom]\<rparr>)"
proof -
  from assms obtain geom where g: "g = Some geom" and ne: "\<not> is_empty geom"
    and le: "line_ends geom = Inr (Some (s, e))"
    by (auto simp: row_ends_def split: option.splits if_splits sum.splits)
  obtain j where j: "map_of (nodes (add_node e (add_node s st))) e = Some j"
    using add_node_self by fastforce
  obtain i0 where "map_of (nodes (add_node s st)) s = Some i0"
    using add_node_self by fastforce
  then have "map_of (nodes (add_node e (add_node s st))) s = Some i0"
    by (rule add_node_mono)
  with g ne le j show ?thesis
    by (simp add: process_row_def add_node_frame)
qed

lemma row_cases:
  "null_or_empty g \<or> dropped g \<or> (\<exists>s e. row_ends g = Some (s, e)) \<or> (\<exists>geom err. g = Some geom \<and> \<not> is_empty geom \<and> line_ends geom = Inl err)"
  by (auto simp: null_or_empty_def dropped_def row_ends_def split: option.splits sum.splits)

lemma process_row_raises: "g = Some geom \<Longrightarrow> \<not> is_empty geom \<Longrightarrow> line_ends geom = Inl err \<Longrightarrow> process_row g st = Inl err"
  by (simp add: process_row_def)


lemma null_row_facts: "null_or_empty g \<Longrightarrow> row_ends g = None \<and> \<not> dropped g \<and> row_cost g = 0"
  by (auto simp: null_or_empty_def row_ends_def dropped_def row_cost_def split: option.splits)

lemma dropped_row_facts: "dropped g \<Longrightarrow> row_ends g = None \<and> \<not> null_or_empty g"
  by (auto simp: null_or_empty_def row_ends_def dropped_def split: option.splits)

lemma ends_row_facts: "row_ends g = Some p \<Longrightarrow> \<not> dropped g \<and> \<not> null_or_empty g"
  by (auto simp: null_or_empty_def row_ends_def dropped_def split: option.splits if_splits)

lemma process_row_Inr_E:
  assumes "process_row g st = Inr st1"
  obtains (null) "null_or_empty g" "st1 = append_null st"
  | (drop) "dropped g" "st1 = st"
  | (ends) s e geom i j where "row_ends g = Some (s, e)" "g = Some geom" "\<not> is_empty geom"
      "map_of (nodes (add_node e (add_node s st))) s = Some i"
      "map_of (nodes (add_node e (add_node s st))) e = Some j"
      "st1 = (add_node e (add_node s st))\<lparr>
              sources := sources st @ [Some i],
              targets := targets st @ [Some j],
              costs := costs st @ [geom_length geom]\<rparr>"
proof -
  consider "null_or_empty g" | "dropped g" | s e where "row_ends g = Some (s, e)"
    | geom err where "g = Some geom" "\<not> is_empty geom" "line_ends geom = Inl err"
    using row_cases by blast
  then show ?thesis
  proof cases
    case 1
    with assms have "st1 = append_null st" by (simp add: process_row_null)
    with 1 show ?thesis by (rule null)
  next
    case 2
    with assms have "st1 = st" by (simp add: process_row_dropped)
    with 2 show ?thesis by (rule drop)
  next
    case 3
    from process_row_ends [OF 3, of st] obtain geom i j where
      h: "g = Some geom" "map_of (nodes (add_node e (add_node s st))) s = Some i"
         "map_of (nodes (add_node e (add_node s st))) e = Some j"
         "process_row g st = Inr ((add_node e (add_node s st))\<lparr>
              sources := sources st @ [Some i],
              targets := targets st @ [Some j],
              costs := costs st @ [geom_length geom]\<rparr>)"
      by blast
    have ne: "\<not> is_empty geom"
      using 3 h(1) by (auto simp: row_ends_def split: if_splits)
    from h(4) assms have "st1 = (add_node e (add_node s st))\<lparr>
              sources := sources st @ [Some i],
              targets := targets st @ [Some j],
              costs := costs st @ [geom_length geom]\<rparr>" by simp
    with 3 h(1) ne h(2) h(3) show ?thesis by (rule ends)
  next
    case 4
    with assms show ?thesis by (simp add: process_row_raises)
  qed
qed

lemma nodes_ok_frame:
  "nodes_ok (st\<lparr>sources := a, targets := b, costs := c\<rparr>) = nodes_ok st"
  by (simp add: nodes_ok_def)

lemma step_ok:
  assumes "process_row g st = Inr st1" and "nodes_ok st"
  shows "nodes_ok st1"
  using assms(1)
proof (cases rule: process_row_Inr_E)
  case null
  with assms(2) show ?thesis by (simp add: append_null_def nodes_ok_frame)
next
  case drop
  with assms(2) show ?thesis by simp
next
  case (ends s e geom i j)
  have "nodes_ok (add_node e (add_node s st))" using assms(2) by (intro add_node_ok)
  with ends(6) show ?thesis by (simp add: nodes_ok_frame)
qed

lemma step_mono:
  assumes "process_row g st = Inr st1" and "map_of (nodes st) k = Some v"
  shows "map_of (nodes st1) k = Some v"
  using assms(1)
proof (cases rule: process_row_Inr_E)
  case null
  with assms(2) show ?thesis by (simp add: append_null_def)
next
  case drop
  with assms(2) show ?thesis by simp
next
  case (ends s e geom i j)
  have "map_of (nodes (add_node e (add_node s st))) k = Some v"
    using assms(2) by (intro add_node_mono)
  with ends(6) show ?thesis by simp
qed

lemma endpoint_keys_single:
  "endpoint_keys [g] = (case row_ends g of None \<Rightarrow> [] | Some (s, e) \<Rightarrow> [s, e])"
  by (simp add: endpoint_keys_def)

lemma step_keys:
  assumes "process_row g st = Inr st1"
  shows "map fst (nodes st1) = first_seen_from (map fst (nodes st)) (endpoint_keys [g])"
  using assms
proof (cases rule: process_row_Inr_E)
  case null
  then show ?thesis
    by (simp add: append_null_def endpoint_keys_single null_row_facts first_seen_from_def)
next
  case drop
  then show ?thesis
    by (simp add: endpoint_keys_single dropped_row_facts first_seen_from_def)
next
  case (ends s e geom i j)
  then show ?thesis
    by (simp add: endpoint_keys_single first_seen_from_def add_node_keys)
qed

lemma step_sources:
  assumes "process_row g st = Inr st1"
  shows "sources st1 = sources st @ (if dropped g then [] else [row_source (map_of (nodes st1)) g])"
  using assms
proof (cases rule: process_row_Inr_E)
  case null
  then show ?thesis by (simp add: append_null_def row_source_def null_row_facts)
next
  case drop
  then show ?thesis by simp
next
  case (ends s e geom i j)
  from ends(1) have "\<not> dropped g" by (simp add: ends_row_facts)
  with ends show ?thesis by (simp add: row_source_def)
qed

lemma step_targets:
  assumes "process_row g st = Inr st1"
  shows "targets st1 = targets st @ (if dropped g then [] else [row_target (map_of (nodes st1)) g])"
  using assms
proof (cases rule: process_row_Inr_E)
  case null
  then show ?thesis by (simp add: append_null_def row_target_def null_row_facts)
next
  case drop
  then show ?thesis by simp
next
  case (ends s e geom i j)
  from ends(1) have "\<not> dropped g" by (simp add: ends_row_facts)
  with ends show ?thesis by (simp add: row_target_def)
qed

lemma step_costs:
  assumes "process_row g st = Inr st1"
  shows "costs st1 = costs st @ (if dropped g then [] else [row_cost g])"
  using assms
proof (cases rule: process_row_Inr_E)
  case null
  then show ?thesis by (simp add: append_null_def null_row_facts)
next
  case drop
  then show ?thesis by simp
next
  case (ends s e geom i j)
  from ends(1) have "\<not> dropped g" by (simp add: ends_row_facts)
  with ends show ?thesis by (simp add: row_cost_def)
qed

section \<open>The loop as a whole\<close>

lemma iter_ok: "iterrows rows st = Inr st' \<Longrightarrow> nodes_ok st \<Longrightarrow> nodes_ok st'"
  by (induction rows arbitrary: st) (auto split: sum.splits dest: step_ok)

lemma iter_mono:
  "iterrows rows st = Inr st' \<Longrightarrow> map_of (nodes st) k = Some v \<Longrightarrow> map_of (nodes st') k = Some v"
  by (induction rows arbitrary: st) (auto split: sum.splits dest: step_mono)

lemma endpoint_keys_Cons: "endpoint_keys (g # rows) = endpoint_keys [g] @ endpoint_keys rows"
  by (simp add: endpoint_keys_def)

lemma iter_keys:
  "iterrows rows st = Inr st' \<Longrightarrow>
   map fst (nodes st') = first_seen_from (map fst (nodes st)) (endpoint_keys rows)"
proof (induction rows arbitrary: st)
  case Nil
  then show ?case by (simp add: first_seen_from_def endpoint_keys_def)
next
  case (Cons g rows)
  then obtain st1 where s1: "process_row g st = Inr st1" and r: "iterrows rows st1 = Inr st'"
    by (auto split: sum.splits)
  from Cons.IH [OF r] step_keys [OF s1] show ?case
    by (simp add: endpoint_keys_Cons [of g rows] first_seen_from_def)
qed

lemma row_source_mono:
  assumes "\<And>k v. m k = Some v \<Longrightarrow> m' k = Some v" and "row_source m g \<noteq> None \<or> row_ends g = None"
  shows "row_source m' g = row_source m g"
  using assms by (auto simp: row_source_def split: option.splits)

lemma row_target_mono:
  assumes "\<And>k v. m k = Some v \<Longrightarrow> m' k = Some v" and "row_target m g \<noteq> None \<or> row_ends g = None"
  shows "row_target m' g = row_target m g"
  using assms by (auto simp: row_target_def split: option.splits)

lemma step_source_defined:
  "process_row g st = Inr st1 \<Longrightarrow> row_source (map_of (nodes st1)) g \<noteq> None \<or> row_ends g = None"
  by (erule process_row_Inr_E) (simp_all add: row_source_def null_row_facts dropped_row_facts)

lemma step_target_defined:
  "process_row g st = Inr st1 \<Longrightarrow> row_target (map_of (nodes st1)) g \<noteq> None \<or> row_ends g = None"
  by (erule process_row_Inr_E) (simp_all add: row_target_def null_row_facts dropped_row_facts)

lemma iter_sources:
  "iterrows rows st = Inr st' \<Longrightarrow>
   sources st' = sources st @ map (row_source (map_of (nodes st'))) (filter (\<lambda>g. \<not> dropped g) rows)"
proof (induction rows arbitrary: st)
  case Nil
  then show ?case by simp
next
  case (Cons g rows)
  then obtain st1 where s1: "process_row g st = Inr st1" and r: "iterrows rows st1 = Inr st'"
    by (auto split: sum.splits)
  have "row_source (map_of (nodes st')) g = row_source (map_of (nodes st1)) g"
    using iter_mono [OF r] step_source_defined [OF s1] by (rule row_source_mono)
  with Cons.IH [OF r] step_sources [OF s1] show ?case by simp
qed

lemma iter_targets:
  "iterrows rows st = Inr st' \<Longrightarrow>
   targets st' = targets st @ map (row_target (map_of (nodes st'))) (filter (\<lambda>g. \<not> dropped g) rows)"
proof (induction rows arbitrary: st)
  case Nil
  then show ?case by simp
next
  case (Cons g rows)
  then obtain st1 where s1: "process_row g st = Inr st1" and r: "iterrows rows st1 = Inr st'"
    by (auto split: sum.splits)
  have "row_target (map_of (nodes st')) g = row_target (map_of (nodes st1)) g"
    using iter_mono [OF r] step_target_defined [OF s1] by (rule row_target_mono)
  with Cons.IH [OF r] step_targets [OF s1] show ?case by simp
qed

lemma iter_costs:
  "iterrows rows st = Inr st' \<Longrightarrow>
   costs st' = costs st @ map row_cost (filter (\<lambda>g. \<not> dropped g) rows)"
proof (induction rows arbitrary: st)
  case Nil
  then show ?case by simp
next
  case (Cons g rows)
  then obtain st1 where s1: "process_row g st = Inr st1" and r: "iterrows rows st1 = Inr st'"
    by (auto split: sum.splits)
  from Cons.IH [OF r] step_costs [OF s1] show ?case by simp
qed



section \<open>Rows the loop accounts for\<close>

lemma index_first_Inr: "xs \<noteq> [] \<Longrightarrow> index_first xs = Inr (hd xs)"
  by (cases xs) (simp_all add: index_first_def)

lemma index_last_Inr: "xs \<noteq> [] \<Longrightarrow> index_last xs = Inr (last xs)"
  by (simp add: index_last_def)

lemma line_ends_LineString:
  "cs \<noteq> [] \<Longrightarrow> line_ends (LineString cs) = Inr (Some (round_coord (hd cs), round_coord (last cs)))"
  by (simp add: line_ends_def try_ends_def index_first_Inr index_last_Inr)

lemma line_ends_MultiLineString:
  assumes "parts \<noteq> []"
  shows "line_ends (MultiLineString parts) =
     (if hd parts = [] \<or> last parts = [] then Inl IndexError
      else Inr (Some (round_coord (hd (hd parts)), round_coord (last (last parts)))))"
proof -
  have t: "try_ends (MultiLineString parts) = Inl NotImplementedError"
    by (simp add: try_ends_def)
  have f: "index_first parts = Inr (hd parts)" and l: "index_last parts = Inr (last parts)"
    using assms by (simp_all add: index_first_Inr index_last_Inr)
  have "line_ends (MultiLineString parts) =
      (case index_first (hd parts) of
         Inl e \<Rightarrow> Inl e
       | Inr a \<Rightarrow>
           (case index_last (last parts) of
              Inl e \<Rightarrow> Inl e
            | Inr b \<Rightarrow> Inr (Some (round_coord a, round_coord b))))"
    by (simp add: line_ends_def t f l)
  also have "\<dots> = (if hd parts = [] \<or> last parts = [] then Inl IndexError
      else Inr (Some (round_coord (hd (hd parts)), round_coord (last (last parts)))))"
    by (cases "hd parts") (simp_all add: index_first_def index_last_def)
  finally show ?thesis .
qed

lemma line_ends_Polygon: "line_ends (Polygon cs) = Inr None"
  by (simp add: line_ends_def try_ends_def)

lemma ok_row_iff: "ok_row g \<longleftrightarrow> null_or_empty g \<or> row_ends g \<noteq> None"
proof (cases g)
  case None
  then show ?thesis by (simp add: null_or_empty_def)
next
  case (Some geom)
  show ?thesis
  proof (cases geom)
    case (LineString cs)
    with Some show ?thesis
      by (cases "cs = []") (simp_all add: null_or_empty_def row_ends_def line_ends_LineString)
  next
    case (MultiLineString parts)
    show ?thesis
    proof (cases "list_all (\<lambda>p. p = []) parts")
      case True
      with Some MultiLineString show ?thesis by (simp add: null_or_empty_def)
    next
      case False
      then have "parts \<noteq> []" by auto
      with False Some MultiLineString show ?thesis
        by (simp add: null_or_empty_def row_ends_def line_ends_MultiLineString)
    qed
  next
    case (Polygon cs)
    with Some show ?thesis
      by (simp add: null_or_empty_def row_ends_def line_ends_Polygon)
  qed
qed

lemma ok_row_not_dropped:
  assumes "ok_row g"
  shows "\<not> dropped g"
proof (cases "null_or_empty g")
  case True
  then show ?thesis by (simp add: null_row_facts)
next
  case False
  with assms obtain p where "row_ends g = Some p"
    by (auto simp: ok_row_iff)
  then show ?thesis by (simp add: ends_row_facts)
qed

lemma ok_row_process:
  assumes "ok_row g"
  shows "\<exists>st1. process_row g st = Inr st1"
proof (cases "null_or_empty g")
  case True
  then show ?thesis by (simp add: process_row_null)
next
  case False
  with assms obtain s e where "row_ends g = Some (s, e)"
    by (auto simp: ok_row_iff)
  from process_row_ends [OF this, of st] show ?thesis by blast
qed

lemma process_row_ok:
  assumes "process_row g st = Inr st1" and "\<not> dropped g"
  shows "ok_row g"
  using assms(1)
proof (cases rule: process_row_Inr_E)
  case null
  then show ?thesis by (simp add: ok_row_iff)
next
  case drop
  with assms(2) show ?thesis by simp
next
  case (ends s e geom i j)
  then show ?thesis by (simp add: ok_row_iff)
qed

lemma iterrows_total: "list_all ok_row rows \<Longrightarrow> \<exists>st'. iterrows rows st = Inr st'"
proof (induction rows arbitrary: st)
  case Nil
  then show ?case by simp
next
  case (Cons g rows)
  from Cons.prems have "ok_row g" by simp
  from ok_row_process [OF this, of st] obtain st1 where "process_row g st = Inr st1" by blast
  moreover from Cons.prems have "list_all ok_row rows" by simp
  from Cons.IH [OF this, of st1] obtain st' where "iterrows rows st1 = Inr st'" by blast
  ultimately show ?case by simp
qed

lemma iterrows_ok_rows:
  "iterrows rows st = Inr st' \<Longrightarrow> \<forall>g\<in>set rows. \<not> dropped g \<Longrightarrow> list_all ok_row rows"
proof (induction rows arbitrary: st)
  case Nil
  then show ?case by simp
next
  case (Cons g rows)
  then obtain st1 where s1: "process_row g st = Inr st1" and r: "iterrows rows st1 = Inr st'"
    by (auto split: sum.splits)
  from Cons.prems(2) have "\<not> dropped g" and rest: "\<forall>g\<in>set rows. \<not> dropped g" by simp_all
  from process_row_ok [OF s1 \<open>\<not> dropped g\<close>] Cons.IH [OF r rest] show ?case by simp
qed

lemma filter_full_length: "length (filter P xs) = length xs \<Longrightarrow> \<forall>x\<in>set xs. P x"
proof (induction xs)
  case Nil
  then show ?case by simp
next
  case (Cons x xs)
  have le: "length (filter P xs) \<le> length xs" by (rule length_filter_le)
  show ?case
  proof (cases "P x")
    case True
    with Cons.prems have "length (filter P xs) = length xs" by simp
    from Cons.IH [OF this] True show ?thesis by simp
  next
    case False
    with Cons.prems have "length (filter P xs) = Suc (length xs)" by simp
    with le show ?thesis by arith
  qed
qed

section \<open>The builder as a whole\<close>

lemma init_ok: "nodes_ok init_state"
  by (simp add: nodes_ok_def init_state_def)

lemma build_Inr_D:
  assumes "build_topology_in_python gdf = Inr (g', ns)"
  obtains st where
    "iterrows (geometry gdf) init_state = Inr st"
    "list_all ok_row (geometry gdf)"
    "sources st = map (row_source (map_of (nodes st))) (geometry gdf)"
    "targets st = map (row_target (map_of (nodes st))) (geometry gdf)"
    "costs st = map row_cost (geometry gdf)"
    "ns = node_data (nodes st)"
    "ns \<noteq> []"
    "g' = gdf\<lparr>columns :=
            AList.update ''reverse_cost'' (map CFloat (costs st))
              (AList.update ''cost'' (map CFloat (costs st))
                (AList.update ''target'' (map id_cell (targets st))
                  (AList.update ''source'' (map id_cell (sources st)) (columns gdf))))\<rparr>"
proof -
  from assms obtain st where it: "iterrows (geometry gdf) init_state = Inr st"
    by (auto simp: build_topology_in_python_def split: sum.splits)
  let ?live = "filter (\<lambda>g. \<not> dropped g) (geometry gdf)"
  have s: "sources st = map (row_source (map_of (nodes st))) ?live"
    using iter_sources [OF it] by (simp add: init_state_def)
  have t: "targets st = map (row_target (map_of (nodes st))) ?live"
    using iter_targets [OF it] by (simp add: init_state_def)
  have c: "costs st = map row_cost ?live"
    using iter_costs [OF it] by (simp add: init_state_def)
  have len: "length (sources st) = length (geometry gdf)"
    using assms it by (auto simp: build_topology_in_python_def set_column_def split: sum.splits if_splits)
  with s have "length ?live = length (geometry gdf)" by simp
  then have nd: "\<forall>g\<in>set (geometry gdf). \<not> dropped g" by (rule filter_full_length)
  then have live: "?live = geometry gdf" by simp
  have ok: "list_all ok_row (geometry gdf)" using it nd by (rule iterrows_ok_rows)
  have lt: "length (targets st) = length (geometry gdf)" and lc: "length (costs st) = length (geometry gdf)"
    using t c live by simp_all
  have g': "g' = gdf\<lparr>columns :=
            AList.update ''reverse_cost'' (map CFloat (costs st))
              (AList.update ''cost'' (map CFloat (costs st))
                (AList.update ''target'' (map id_cell (targets st))
                  (AList.update ''source'' (map id_cell (sources st)) (columns gdf))))\<rparr>"
    and ns: "ns = node_data (nodes st)" and ne: "ns \<noteq> []"
    using assms it len lt lc
    by (auto simp: build_topology_in_python_def set_column_def node_frame_def split: if_splits)
  from s live have s2: "sources st = map (row_source (map_of (nodes st))) (geometry gdf)"
    by simp
  from t live have t2: "targets st = map (row_target (map_of (nodes st))) (geometry gdf)"
    by simp
  from c live have c2: "costs st = map row_cost (geometry gdf)"
    by simp
  from it ok s2 t2 c2 ns ne g' show ?thesis by (rule that)
qed

section \<open>The node table\<close>

lemma nodes_ok_ids: "nodes_ok st \<Longrightarrow> map snd (nodes st) = [1..<Suc (length (nodes st))]"
proof -
  assume ok: "nodes_ok st"
  then have m: "map snd (nodes st) = [1..<node_counter st]" and c: "1 \<le> node_counter st"
    by (simp_all add: nodes_ok_def)
  from m have "length (nodes st) = node_counter st - 1"
    by (metis length_map length_upt)
  with c have "node_counter st = Suc (length (nodes st))" by simp
  with m show ?thesis by simp
qed

lemma node_data_point: "map point (node_data ns) = map fst ns"
  by (induction ns) (auto simp: node_data_def)

lemma node_data_id: "map node_id (node_data ns) = map snd ns"
  by (induction ns) (auto simp: node_data_def)

lemma node_dict_data: "node_dict (node_data ns) = map_of ns"
proof -
  have "map (\<lambda>n. (point n, node_id n)) (node_data ns) = ns"
    by (induction ns) (auto simp: node_data_def)
  then show ?thesis by (simp add: node_dict_def)
qed

lemma ins_set: "set (ins k ks) = insert k (set ks)"
  by (auto simp: ins_def)

lemma ins_distinct: "distinct ks \<Longrightarrow> distinct (ins k ks)"
  by (simp add: ins_def)

lemma first_seen_from_set: "set (first_seen_from ks xs) = set ks \<union> set xs"
  unfolding first_seen_from_def
  by (induction xs arbitrary: ks) (simp_all add: ins_set)

lemma first_seen_from_distinct: "distinct ks \<Longrightarrow> distinct (first_seen_from ks xs)"
  unfolding first_seen_from_def
  by (induction xs arbitrary: ks) (simp_all add: ins_distinct)

lemma first_seen_set: "set (first_seen xs) = set xs"
  by (simp add: first_seen_def first_seen_from_set)

lemma first_seen_distinct: "distinct (first_seen xs)"
  by (simp add: first_seen_def first_seen_from_distinct)

text \<open>When the builder returns: every row is accounted for and some row has line ends.\<close>

lemma first_seen_Nil_iff: "first_seen xs = [] \<longleftrightarrow> xs = []"
proof -
  have "set (first_seen xs) = {} \<longleftrightarrow> set xs = {}" by (simp only: first_seen_set)
  then show ?thesis by simp
qed

lemma iterrows_nodes_Nil_iff:
  assumes "iterrows rows init_state = Inr st"
  shows "nodes st = [] \<longleftrightarrow> endpoint_keys rows = []"
proof -
  have "map fst (nodes st) = first_seen (endpoint_keys rows)"
    using iter_keys [OF assms] by (simp add: init_state_def first_seen_def)
  then have "map fst (nodes st) = [] \<longleftrightarrow> first_seen (endpoint_keys rows) = []" by simp
  then show ?thesis by (simp add: first_seen_Nil_iff)
qed

lemma build_has_node:
  assumes "build_topology_in_python gdf = Inr (g', ns)"
  shows "endpoint_keys (geometry gdf) \<noteq> []"
proof -
  from assms obtain st where it: "iterrows (geometry gdf) init_state = Inr st"
    and ns: "ns = node_data (nodes st)" and ne: "ns \<noteq> []"
    using build_Inr_D [of gdf g' ns] by blast
  from ns ne have "nodes st \<noteq> []" by (auto simp: node_data_def)
  with iterrows_nodes_Nil_iff [OF it] show ?thesis by simp
qed

lemma build_total:
  assumes "list_all ok_row (geometry gdf)" and "endpoint_keys (geometry gdf) \<noteq> []"
  shows "\<exists>g' ns. build_topology_in_python gdf = Inr (g', ns)"
proof -
  from iterrows_total [OF assms(1)] obtain st where it: "iterrows (geometry gdf) init_state = Inr st"
    by blast
  have nd: "filter (\<lambda>g. \<not> dropped g) (geometry gdf) = geometry gdf"
    using assms(1) by (simp add: list_all_iff ok_row_not_dropped)
  have "length (sources st) = length (geometry gdf)"
    using iter_sources [OF it] nd by (simp add: init_state_def)
  moreover have "length (targets st) = length (geometry gdf)"
    using iter_targets [OF it] nd by (simp add: init_state_def)
  moreover have "length (costs st) = length (geometry gdf)"
    using iter_costs [OF it] nd by (simp add: init_state_def)
  moreover have "node_data (nodes st) \<noteq> []"
    using iterrows_nodes_Nil_iff [OF it] assms(2) by (simp add: node_data_def)
  ultimately show ?thesis
    using it by (simp add: build_topology_in_python_def set_column_def node_frame_def)
qed

lemma build_no_node_raises:
  assumes "list_all ok_row (geometry gdf)" and "endpoint_keys (geometry gdf) = []"
  shows "build_topology_in_python gdf = Inl ValueError"
proof -
  from iterrows_total [OF assms(1)] obtain st where it: "iterrows (geometry gdf) init_state = Inr st"
    by blast
  have "node_data (nodes st) = []"
    using iterrows_nodes_Nil_iff [OF it] assms(2) by (simp add: node_data_def)
  then show ?thesis
    using it
    by (simp add: build_topology_in_python_def set_column_def node_frame_def split: sum.splits)
qed

lemma build_returns_iff:
  "(\<exists>g' ns. build_topology_in_python gdf = Inr (g', ns)) \<longleftrightarrow>
   list_all ok_row (geometry gdf) \<and> endpoint_keys (geometry gdf) \<noteq> []"
proof
  assume "\<exists>g' ns. build_topology_in_python gdf = Inr (g', ns)"
  then obtain g' ns where b: "build_topology_in_python gdf = Inr (g', ns)" by blast
  then have "list_all ok_row (geometry gdf)" by (rule build_Inr_D)
  with build_has_node [OF b]
  show "list_all ok_row (geometry gdf) \<and> endpoint_keys (geometry gdf) \<noteq> []" by simp
next
  assume "list_all ok_row (geometry gdf) \<and> endpoint_keys (geometry gdf) \<noteq> []"
  then show "\<exists>g' ns. build_topology_in_python gdf = Inr (g', ns)" by (simp add: build_total)
qed

lemma map_of_inj:
  assumes "distinct (map fst xs)" and "distinct (map snd xs)"
    and "map_of xs k1 = Some v" and "map_of xs k2 = Some v"
  shows "k1 = k2"
proof -
  from assms(1,3,4) have "(k1, v) \<in> set xs" and "(k2, v) \<in> set xs" by simp_all
  moreover from assms(2) have "inj_on snd (set xs)" by (simp add: distinct_map)
  ultimately have "(k1, v) = (k2, v)"
    using inj_onD [of snd "set xs" "(k1, v)" "(k2, v)"] by simp
  then show ?thesis by simp
qed

section \<open>What the builder returns\<close>

lemma column_update_same: "map_of (AList.update k v al) k = Some v"
  by (simp add: update_conv')

lemma column_update_other: "k' \<noteq> k \<Longrightarrow> map_of (AList.update k v al) k' = map_of al k'"
  by (simp add: update_conv')

lemma filter_update_frame:
  "k \<in> S \<Longrightarrow> filter (\<lambda>c. fst c \<notin> S) (AList.update k v al) = filter (\<lambda>c. fst c \<notin> S) al"
  by (induction al) auto

lemma build_result:
  assumes "build_topology_in_python gdf = Inr (g', ns)"
  shows "geometry g' = geometry gdf"
    and "column g' ''source'' = Some (map (\<lambda>g. id_cell (row_source (node_dict ns) g)) (geometry gdf))"
    and "column g' ''target'' = Some (map (\<lambda>g. id_cell (row_target (node_dict ns) g)) (geometry gdf))"
    and "column g' ''cost'' = Some (map (\<lambda>g. CFloat (row_cost g)) (geometry gdf))"
    and "column g' ''reverse_cost'' = Some (map (\<lambda>g. CFloat (row_cost g)) (geometry gdf))"
    and "map point ns = first_seen (endpoint_keys (geometry gdf))"
    and "map node_id ns = [1..<Suc (length ns)]"
    and "name \<notin> topology_columns \<Longrightarrow> column g' name = column gdf name"
    and "filter (\<lambda>c. fst c \<notin> topology_columns) (columns g') =
         filter (\<lambda>c. fst c \<notin> topology_columns) (columns gdf)"
proof -
  from assms obtain st where
    it: "iterrows (geometry gdf) init_state = Inr st" and
    s: "sources st = map (row_source (map_of (nodes st))) (geometry gdf)" and
    t: "targets st = map (row_target (map_of (nodes st))) (geometry gdf)" and
    c: "costs st = map row_cost (geometry gdf)" and
    ns: "ns = node_data (nodes st)" and
    g': "g' = gdf\<lparr>columns :=
            AList.update ''reverse_cost'' (map CFloat (costs st))
              (AList.update ''cost'' (map CFloat (costs st))
                (AList.update ''target'' (map id_cell (targets st))
                  (AList.update ''source'' (map id_cell (sources st)) (columns gdf))))\<rparr>"
    by (rule build_Inr_D)
  have d: "node_dict ns = map_of (nodes st)" by (simp add: ns node_dict_data)
  show "geometry g' = geometry gdf" by (simp add: g')
  show "column g' ''source'' = Some (map (\<lambda>g. id_cell (row_source (node_dict ns) g)) (geometry gdf))"
    by (simp add: g' column_def update_conv' s d)
  show "column g' ''target'' = Some (map (\<lambda>g. id_cell (row_target (node_dict ns) g)) (geometry gdf))"
    by (simp add: g' column_def update_conv' t d)
  show "column g' ''cost'' = Some (map (\<lambda>g. CFloat (row_cost g)) (geometry gdf))"
    by (simp add: g' column_def update_conv' c)
  show "column g' ''reverse_cost'' = Some (map (\<lambda>g. CFloat (row_cost g)) (geometry gdf))"
    by (simp add: g' column_def update_conv' c)
  have ok: "nodes_ok st" using it init_ok by (rule iter_ok)
  show "map point ns = first_seen (endpoint_keys (geometry gdf))"
    using iter_keys [OF it] by (simp add: ns node_data_point first_seen_def init_state_def)
  show "map node_id ns = [1..<Suc (length ns)]"
    using nodes_ok_ids [OF ok] by (simp add: ns node_data_id) (simp add: node_data_def)
  show "column g' name = column gdf name" if "name \<notin> topology_columns"
    using that by (simp add: g' column_def update_conv' topology_columns_def)
  show "filter (\<lambda>c. fst c \<notin> topology_columns) (columns g') =
         filter (\<lambda>c. fst c \<notin> topology_columns) (columns gdf)"
  proof -
    have m: "''source'' \<in> topology_columns" "''target'' \<in> topology_columns"
      "''cost'' \<in> topology_columns" "''reverse_cost'' \<in> topology_columns"
      by (simp_all add: topology_columns_def)
    show ?thesis
      unfolding g' by (simp add: filter_update_frame [OF m(1)] filter_update_frame [OF m(2)]
          filter_update_frame [OF m(3)] filter_update_frame [OF m(4)])
  qed
qed

lemma row_ends_raw:
  "row_ends g = map_option (\<lambda>(a, b). (round_coord a, round_coord b)) (raw_ends g)"
proof (cases g)
  case None
  then show ?thesis by (simp add: row_ends_def raw_ends_def)
next
  case (Some geom)
  show ?thesis
  proof (cases geom)
    case (LineString cs)
    with Some show ?thesis
      by (cases "cs = []") (simp_all add: row_ends_def raw_ends_def line_ends_LineString)
  next
    case (MultiLineString parts)
    show ?thesis
    proof (cases "list_all (\<lambda>p. p = []) parts")
      case True
      with Some MultiLineString show ?thesis by (simp add: row_ends_def raw_ends_def)
    next
      case False
      then have "parts \<noteq> []" by auto
      with False Some MultiLineString show ?thesis
        by (simp add: row_ends_def raw_ends_def line_ends_MultiLineString)
    qed
  next
    case (Polygon cs)
    with Some show ?thesis by (simp add: row_ends_def raw_ends_def line_ends_Polygon)
  qed
qed

lemma endpoint_keys_raw: "endpoint_keys rows = map round_coord (raw_endpoints rows)"
proof -
  have "(case row_ends g of None \<Rightarrow> [] | Some (s, e) \<Rightarrow> [s, e]) =
        map round_coord (case raw_ends g of None \<Rightarrow> [] | Some (a, b) \<Rightarrow> [a, b])" for g
    by (cases "raw_ends g") (auto simp: row_ends_raw)
  then show ?thesis
    by (simp add: endpoint_keys_def raw_endpoints_def map_concat comp_def)
qed

lemma row_ends_in_keys:
  assumes "g \<in> set rows" and "row_ends g = Some (s, e)"
  shows "s \<in> set (endpoint_keys rows)" and "e \<in> set (endpoint_keys rows)"
proof -
  from assms(2) have "set (case row_ends g of None \<Rightarrow> [] | Some (s, e) \<Rightarrow> [s, e]) = {s, e}"
    by simp
  with assms(1) have "{s, e} \<subseteq> set (endpoint_keys rows)"
    unfolding endpoint_keys_def set_concat set_map by blast
  then show "s \<in> set (endpoint_keys rows)" and "e \<in> set (endpoint_keys rows)" by simp_all
qed

lemma id_cell_eq: "id_cell (Some a) = id_cell (Some b) \<longleftrightarrow> a = b"
  by (simp add: id_cell_def)

text \<open>The node dict of a returned build: defined exactly on the keys, and injective.\<close>

lemma build_dict:
  assumes "build_topology_in_python gdf = Inr (g', ns)"
  shows "dom (node_dict ns) = set (endpoint_keys (geometry gdf))"
    and "node_dict ns k1 = Some v \<Longrightarrow> node_dict ns k2 = Some v \<Longrightarrow> k1 = k2"
    and "ran (node_dict ns) = node_id ` set ns"
    and "distinct (map node_id ns)"
proof -
  from assms obtain st where
    it: "iterrows (geometry gdf) init_state = Inr st" and
    ns: "ns = node_data (nodes st)"
    using build_Inr_D [of gdf g' ns] by blast
  have ok: "nodes_ok st" using it init_ok by (rule iter_ok)
  have d: "node_dict ns = map_of (nodes st)" by (simp add: ns node_dict_data)
  have keys: "map fst (nodes st) = first_seen (endpoint_keys (geometry gdf))"
    using iter_keys [OF it] by (simp add: first_seen_def init_state_def)
  have df: "distinct (map fst (nodes st))" using ok by (simp add: nodes_ok_def)
  have ds: "distinct (map snd (nodes st))" using nodes_ok_ids [OF ok] by simp
  show "dom (node_dict ns) = set (endpoint_keys (geometry gdf))"
  proof -
    have "dom (map_of (nodes st)) = set (map fst (nodes st))"
      by (simp add: dom_map_of_conv_image_fst)
    also have "\<dots> = set (endpoint_keys (geometry gdf))"
      by (simp only: keys first_seen_set)
    finally show ?thesis by (simp only: d)
  qed
  show "k1 = k2" if "node_dict ns k1 = Some v" "node_dict ns k2 = Some v"
    using df ds that unfolding d by (rule map_of_inj)
  show "ran (node_dict ns) = node_id ` set ns"
  proof -
    have "ran (map_of (nodes st)) = set (map snd (nodes st))"
      using df by (simp add: ran_distinct)
    also have "\<dots> = set (map node_id ns)"
      by (simp only: ns node_data_id)
    finally show ?thesis by (simp only: d set_map)
  qed
  show "distinct (map node_id ns)"
    using ds by (simp add: ns node_data_id)
qed

lemma build_endpoint_ids:
  assumes b: "build_topology_in_python gdf = Inr (g', ns)"
    and src: "column g' ''source'' = Some src" and tgt: "column g' ''target'' = Some tgt"
    and i: "i < length (geometry gdf)" and r: "raw_ends (geometry gdf ! i) = Some (a, b)"
  shows "\<exists>u v. node_dict ns (round_coord a) = Some u \<and> node_dict ns (round_coord b) = Some v \<and>
           src ! i = CInt (int u) \<and> tgt ! i = CInt (int v)"
proof -
  let ?g = "geometry gdf ! i"
  from r have re: "row_ends ?g = Some (round_coord a, round_coord b)"
    by (simp add: row_ends_raw)
  from i have mem: "?g \<in> set (geometry gdf)" by simp
  from row_ends_in_keys [OF mem re] build_dict(1) [OF b]
  have "round_coord a \<in> dom (node_dict ns)" and "round_coord b \<in> dom (node_dict ns)"
    by simp_all
  then obtain u v where u: "node_dict ns (round_coord a) = Some u"
    and v: "node_dict ns (round_coord b) = Some v" by blast
  from build_result(2) [OF b] src i have "src ! i = id_cell (row_source (node_dict ns) ?g)"
    by simp
  with re u have s1: "src ! i = CInt (int u)" by (simp add: row_source_def id_cell_def)
  from build_result(3) [OF b] tgt i have "tgt ! i = id_cell (row_target (node_dict ns) ?g)"
    by simp
  with re v have t1: "tgt ! i = CInt (int v)" by (simp add: row_target_def id_cell_def)
  from u v s1 t1 show ?thesis by blast
qed

lemma build_dict_eq_iff:
  assumes b: "build_topology_in_python gdf = Inr (g', ns)"
    and "node_dict ns k1 = Some u" and "node_dict ns k2 = Some v"
  shows "u = v \<longleftrightarrow> k1 = k2"
  using assms build_dict(2) [OF b, of k1 u k2] by auto

lemma build_node_count:
  assumes b: "build_topology_in_python gdf = Inr (g', ns)"
  shows "card (node_id ` set ns) = card (round_coord ` set (raw_endpoints (geometry gdf)))"
proof -
  have "card (node_id ` set ns) = card (set (map node_id ns))" by simp
  also have "\<dots> = length (map node_id ns)" using build_dict(4) [OF b] by (rule distinct_card)
  also have "\<dots> = length ns" by simp
  also have "\<dots> = length (map point ns)" by simp
  also have "\<dots> = card (set (first_seen (endpoint_keys (geometry gdf))))"
    by (simp only: build_result(6) [OF b] distinct_card [OF first_seen_distinct])
  also have "\<dots> = card (round_coord ` set (raw_endpoints (geometry gdf)))"
    by (simp add: first_seen_set endpoint_keys_raw)
  finally show ?thesis .
qed

text \<open>
  C5. Two line ends get the same node id exactly when their coordinates, rounded to 6
  decimal digits, are equal; so the builder produces as many node ids as there are
  distinct rounded coordinates among the ends of the lines. This holds on every frame the
  builder returns on, which it does when every row is accounted for and some row has line
  ends (with no line end at all there is no node, and the node frame cannot be made).
\<close>

theorem C5_node_id_iff_rounded_coordinate:
  assumes "list_all ok_row (geometry gdf)"
    and "raw_endpoints (geometry gdf) \<noteq> []"
  shows "\<exists>g' ns src tgt.
      build_topology_in_python gdf = Inr (g', ns) \<and>
      column g' ''source'' = Some src \<and> column g' ''target'' = Some tgt \<and>
      (\<forall>i j a b c d.
         i < length (geometry gdf) \<longrightarrow> j < length (geometry gdf) \<longrightarrow>
         raw_ends (geometry gdf ! i) = Some (a, b) \<longrightarrow>
         raw_ends (geometry gdf ! j) = Some (c, d) \<longrightarrow>
           (src ! i = src ! j \<longleftrightarrow> round_coord a = round_coord c) \<and>
           (src ! i = tgt ! j \<longleftrightarrow> round_coord a = round_coord d) \<and>
           (tgt ! i = tgt ! j \<longleftrightarrow> round_coord b = round_coord d)) \<and>
      card (node_id ` set ns) = card (round_coord ` set (raw_endpoints (geometry gdf)))"
proof -
  from assms(2) have "endpoint_keys (geometry gdf) \<noteq> []" by (simp add: endpoint_keys_raw)
  from build_total [OF assms(1) this] obtain g' ns
    where b: "build_topology_in_python gdf = Inr (g', ns)" by blast
  obtain src where src: "column g' ''source'' = Some src" using build_result(2) [OF b] by blast
  obtain tgt where tgt: "column g' ''target'' = Some tgt" using build_result(3) [OF b] by blast
  have pair: "(src ! i = src ! j \<longleftrightarrow> round_coord a = round_coord c) \<and>
              (src ! i = tgt ! j \<longleftrightarrow> round_coord a = round_coord d) \<and>
              (tgt ! i = tgt ! j \<longleftrightarrow> round_coord b = round_coord d)"
    if i: "i < length (geometry gdf)" and j: "j < length (geometry gdf)"
      and ri: "raw_ends (geometry gdf ! i) = Some (a, b)"
      and rj: "raw_ends (geometry gdf ! j) = Some (c, d)" for i j a b c d
  proof -
    from build_endpoint_ids [OF b src tgt i ri] obtain u v where
      u: "node_dict ns (round_coord a) = Some u" and v: "node_dict ns (round_coord b) = Some v"
      and si: "src ! i = CInt (int u)" and ti: "tgt ! i = CInt (int v)" by blast
    from build_endpoint_ids [OF b src tgt j rj] obtain w x where
      w: "node_dict ns (round_coord c) = Some w" and x: "node_dict ns (round_coord d) = Some x"
      and sj: "src ! j = CInt (int w)" and tj: "tgt ! j = CInt (int x)" by blast
    show ?thesis
      using build_dict_eq_iff [OF b u w] build_dict_eq_iff [OF b u x] build_dict_eq_iff [OF b v x]
      by (simp add: si ti sj tj)
  qed
  from b src tgt pair build_node_count [OF b] show ?thesis by blast
qed

section \<open>Evaluating the builder on the example\<close>

lemma sqrt_9: "sqrt 9 = 3"
  by (rule real_sqrt_unique) simp_all

lemma sqrt_25: "sqrt 25 = 5"
  by (rule real_sqrt_unique) simp_all

lemma round_coord_0_0: "round_coord (0, 0) = (0, 0)"
  by (simp add: round_coord_def py_round_def round_half_even_def)

lemma round_coord_3_4: "round_coord (3, 4) = (3, 4)"
  by (simp add: round_coord_def py_round_def round_half_even_def)

lemma round_coord_near_3_4: "round_coord (30000001 / 10000000, 4) = (3, 4)"
  by (simp add: round_coord_def py_round_def round_half_even_def)

lemma round_coord_0_7: "round_coord (0, 7) = (0, 7)"
  by (simp add: round_coord_def py_round_def round_half_even_def)

lemma example_row0:
  "process_row (Some (LineString [(0, 0), (3, 4)])) init_state =
   Inr \<lparr>nodes = [((0, 0), 1), ((3, 4), 2)], node_counter = 3, sources = [Some 1],
        targets = [Some 2], costs = [5]\<rparr>"
  by (simp add: process_row_def line_ends_LineString round_coord_0_0 round_coord_3_4
      add_node_def init_state_def dist2d_def sqrt_25)

lemma example_row1:
  "process_row None
     \<lparr>nodes = [((0, 0), 1), ((3, 4), 2)], node_counter = 3, sources = [Some 1],
      targets = [Some 2], costs = [5]\<rparr> =
   Inr \<lparr>nodes = [((0, 0), 1), ((3, 4), 2)], node_counter = 3, sources = [Some 1, None],
        targets = [Some 2, None], costs = [5, 0]\<rparr>"
  by (simp add: process_row_def append_null_def)

lemma example_row2:
  "process_row
     (Some (MultiLineString [[(30000001 / 10000000, 4), (30000001 / 10000000, 7)],
                             [(3, 7), (0, 7)]]))
     \<lparr>nodes = [((0, 0), 1), ((3, 4), 2)], node_counter = 3, sources = [Some 1, None],
      targets = [Some 2, None], costs = [5, 0]\<rparr> =
   Inr \<lparr>nodes = [((0, 0), 1), ((3, 4), 2), ((0, 7), 3)], node_counter = 4,
        sources = [Some 1, None, Some 2], targets = [Some 2, None, Some 3],
        costs = [5, 0, 6]\<rparr>"
  by (simp add: process_row_def line_ends_MultiLineString round_coord_near_3_4 round_coord_0_7
      add_node_def dist2d_def sqrt_9)

lemma example_iterrows:
  "iterrows (geometry example_roads) init_state =
   Inr \<lparr>nodes = [((0, 0), 1), ((3, 4), 2), ((0, 7), 3)], node_counter = 4,
        sources = [Some 1, None, Some 2], targets = [Some 2, None, Some 3],
        costs = [5, 0, 6]\<rparr>"
  unfolding example_roads_def
  by (simp only: geodataframe.select_convs iterrows.simps example_row0 example_row1
      example_row2 sum.case)

lemma example_build:
  "build_topology_in_python example_roads = Inr (example_built, example_nodes)"
proof -
  have len: "length (geometry example_roads) = 3"
    and cols: "columns example_roads =
      [(''name'', [CStr ''A'', CStr ''B'', CStr ''C'']),
       (''cost'', [CStr ''toll'', CStr ''free'', CStr ''toll''])]"
    by (simp_all add: example_roads_def)
  show ?thesis
    unfolding build_topology_in_python_def example_iterrows
    by (simp add: set_column_def len cols id_cell_def node_data_def node_frame_def
        example_built_def example_nodes_def)
qed

lemma example_ok: "list_all ok_row (geometry example_roads)"
  by (simp add: example_roads_def)

lemma example_raw_ends:
  "raw_ends (geometry example_roads ! 0) = Some ((0, 0), (3, 4))"
  "raw_ends (geometry example_roads ! 2) = Some ((30000001 / 10000000, 4), (0, 7))"
  by (simp_all add: example_roads_def raw_ends_def)

lemma example_raw_endpoints:
  "raw_endpoints (geometry example_roads) = [(0, 0), (3, 4), (30000001 / 10000000, 4), (0, 7)]"
  by (simp add: example_roads_def raw_endpoints_def raw_ends_def)

theorem C5_witness:
  "list_all ok_row (geometry example_roads) \<and>
   raw_endpoints (geometry example_roads) \<noteq> [] \<and>
   (\<exists>g' ns src tgt.
      build_topology_in_python example_roads = Inr (g', ns) \<and>
      column g' ''source'' = Some src \<and> column g' ''target'' = Some tgt \<and>
      src ! 2 = tgt ! 0 \<and> src ! 0 \<noteq> src ! 2 \<and> card (node_id ` set ns) = 3)"
proof -
  have ne: "raw_endpoints (geometry example_roads) \<noteq> []"
    by (simp add: example_raw_endpoints)
  from C5_node_id_iff_rounded_coordinate [OF example_ok ne] obtain g' ns src tgt where
    b: "build_topology_in_python example_roads = Inr (g', ns)" and
    s: "column g' ''source'' = Some src" and t: "column g' ''target'' = Some tgt" and
    iff: "\<And>i j a b c d.
         i < length (geometry example_roads) \<Longrightarrow> j < length (geometry example_roads) \<Longrightarrow>
         raw_ends (geometry example_roads ! i) = Some (a, b) \<Longrightarrow>
         raw_ends (geometry example_roads ! j) = Some (c, d) \<Longrightarrow>
           (src ! i = src ! j \<longleftrightarrow> round_coord a = round_coord c) \<and>
           (src ! i = tgt ! j \<longleftrightarrow> round_coord a = round_coord d) \<and>
           (tgt ! i = tgt ! j \<longleftrightarrow> round_coord b = round_coord d)" and
    n: "card (node_id ` set ns) = card (round_coord ` set (raw_endpoints (geometry example_roads)))"
    by blast
  have len: "length (geometry example_roads) = 3" by (simp add: example_roads_def)
  have "src ! 2 = tgt ! 0"
    using iff [of 2 0, OF _ _ example_raw_ends(2) example_raw_ends(1)]
    by (simp add: len round_coord_near_3_4 round_coord_3_4)
  moreover have "src ! 0 \<noteq> src ! 2"
    using iff [of 0 2, OF _ _ example_raw_ends(1) example_raw_ends(2)]
    by (simp add: len round_coord_near_3_4 round_coord_0_0)
  moreover have "card (node_id ` set ns) = 3"
    by (simp add: n example_raw_endpoints round_coord_near_3_4 round_coord_3_4 round_coord_0_0
        round_coord_0_7)
  ultimately show ?thesis using example_ok ne b s t by blast
qed

text \<open>
  C8. The build is deterministic: the node ids and the topology columns depend on the
  sequence of input geometries alone. Two runs over frames with the same geometry
  sequence return the same node table and the same source, target, cost and reverse cost
  columns, row by row (a row keeps its position, which is its edge id); the nodes are the
  distinct rounded end coordinates in the order they are first seen, numbered 1, 2, ...
\<close>

theorem C8_build_deterministic:
  assumes "geometry gdf2 = geometry gdf1"
    and "build_topology_in_python gdf1 = Inr (g1, ns1)"
  shows "\<exists>g2. build_topology_in_python gdf2 = Inr (g2, ns1) \<and>
           geometry g2 = geometry g1 \<and>
           column g2 ''source'' = column g1 ''source'' \<and>
           column g2 ''target'' = column g1 ''target'' \<and>
           column g2 ''cost'' = column g1 ''cost'' \<and>
           column g2 ''reverse_cost'' = column g1 ''reverse_cost'' \<and>
           map point ns1 = first_seen (map round_coord (raw_endpoints (geometry gdf1))) \<and>
           map node_id ns1 = [1..<Suc (length ns1)]"
proof -
  from assms(2) obtain st1 where
    it1: "iterrows (geometry gdf1) init_state = Inr st1" and
    ok1: "list_all ok_row (geometry gdf1)" and
    n1: "ns1 = node_data (nodes st1)"
    using build_Inr_D [of gdf1 g1 ns1] by blast
  from ok1 assms(1) have ok2: "list_all ok_row (geometry gdf2)" by simp
  from build_has_node [OF assms(2)] assms(1) have "endpoint_keys (geometry gdf2) \<noteq> []"
    by simp
  from build_total [OF ok2 this] obtain g2 ns2 where
    b2: "build_topology_in_python gdf2 = Inr (g2, ns2)" by blast
  then obtain st2 where
    it2: "iterrows (geometry gdf2) init_state = Inr st2" and
    n2: "ns2 = node_data (nodes st2)"
    using build_Inr_D [of gdf2 g2 ns2] by blast
  from it1 it2 assms(1) have "st2 = st1" by simp
  with n1 n2 have ns: "ns2 = ns1" by simp
  note r1 = build_result [OF assms(2)]
  note r2 = build_result [OF b2 [unfolded ns]]
  have "geometry g2 = geometry g1" by (simp add: r1(1) r2(1) assms(1))
  moreover have "column g2 ''source'' = column g1 ''source''"
    by (simp add: r1(2) r2(2) assms(1))
  moreover have "column g2 ''target'' = column g1 ''target''"
    by (simp add: r1(3) r2(3) assms(1))
  moreover have "column g2 ''cost'' = column g1 ''cost''"
    by (simp add: r1(4) r2(4) assms(1))
  moreover have "column g2 ''reverse_cost'' = column g1 ''reverse_cost''"
    by (simp add: r1(5) r2(5) assms(1))
  moreover have "map point ns1 = first_seen (map round_coord (raw_endpoints (geometry gdf1)))"
    by (simp add: r1(6) endpoint_keys_raw)
  moreover note r1(7)
  ultimately show ?thesis using b2 ns by blast
qed

theorem C8_witness:
  "geometry (example_roads\<lparr>columns := []\<rparr>) = geometry example_roads \<and>
   build_topology_in_python example_roads = Inr (example_built, example_nodes) \<and>
   (\<exists>g2. build_topology_in_python (example_roads\<lparr>columns := []\<rparr>) = Inr (g2, example_nodes) \<and>
      column g2 ''source'' = Some [CInt 1, CNone, CInt 2] \<and>
      column g2 ''target'' = Some [CInt 2, CNone, CInt 3] \<and>
      map node_id example_nodes = [1, 2, 3])"
proof -
  have g: "geometry (example_roads\<lparr>columns := []\<rparr>) = geometry example_roads" by simp
  from C8_build_deterministic [OF g example_build] obtain g2 where
    "build_topology_in_python (example_roads\<lparr>columns := []\<rparr>) = Inr (g2, example_nodes)"
    "column g2 ''source'' = column example_built ''source''"
    "column g2 ''target'' = column example_built ''target''"
    by blast
  moreover have "column example_built ''source'' = Some [CInt 1, CNone, CInt 2]"
    "column example_built ''target'' = Some [CInt 2, CNone, CInt 3]"
    by (simp_all add: column_def example_built_def)
  moreover have "map node_id example_nodes = [1, 2, 3]" by (simp add: example_nodes_def)
  ultimately show ?thesis using g example_build by auto
qed

section \<open>The input frame after the call\<close>

text \<open>
  C9. The builder is said to leave its input unchanged. It assigns the columns source,
  target, cost and reverse_cost on the frame it was handed and returns that frame: a
  column of one of these names that the input had is overwritten, the others are added.
  What holds: the call changes no other frame, no geometry, no row, and no column of
  another name (nor the order of those columns); the nodes are a separate output.
\<close>

theorem C9_only_topology_columns_change:
  assumes "call_build_topology h r = Inr (h', r', ns)"
  shows "r' = r \<and> (\<forall>q. q \<noteq> r \<longrightarrow> h' q = h q) \<and>
         geometry (h' r) = geometry (h r) \<and>
         filter (\<lambda>c. fst c \<notin> topology_columns) (columns (h' r)) =
           filter (\<lambda>c. fst c \<notin> topology_columns) (columns (h r)) \<and>
         (\<forall>name. name \<notin> topology_columns \<longrightarrow> column (h' r) name = column (h r) name) \<and>
         (\<forall>name\<in>topology_columns.
            \<exists>vals. column (h' r) name = Some vals \<and> length vals = length (geometry (h r)))"
proof -
  from assms obtain g where b: "build_topology_in_python (h r) = Inr (g, ns)"
    and h': "h' = h(r := g)" and r': "r' = r"
    by (auto simp: call_build_topology_def split: sum.splits)
  note res = build_result [OF b]
  have "\<exists>vals. column g name = Some vals \<and> length vals = length (geometry (h r))"
    if "name \<in> topology_columns" for name
    using that res(2-5) by (auto simp: topology_columns_def)
  with r' h' res(1) res(9) res(8) show ?thesis by simp
qed

theorem C9_counterexample:
  "frame_after example_store 0 = Some example_built \<and>
   example_store 0 = example_roads \<and>
   example_built \<noteq> example_roads \<and>
   column example_roads ''cost'' = Some [CStr ''toll'', CStr ''free'', CStr ''toll''] \<and>
   column example_built ''cost'' = Some [CFloat 5, CFloat 0, CFloat 6] \<and>
   column example_roads ''source'' = None \<and>
   column example_built ''source'' = Some [CInt 1, CNone, CInt 2]"
  by (simp add: frame_after_def example_store_def call_build_topology_def example_build)
     (simp add: example_built_def example_roads_def column_def)

theorem C9_witness:
  "call_build_topology example_store 0 =
     Inr (example_store(0 := example_built), 0, example_nodes) \<and>
   geometry example_built = geometry example_roads \<and>
   column example_built ''name'' = column example_roads ''name''"
proof -
  have c: "call_build_topology example_store 0 =
     Inr (example_store(0 := example_built), 0, example_nodes)"
    by (simp add: call_build_topology_def example_store_def example_build)
  have n: "''name'' \<notin> topology_columns" by (simp add: topology_columns_def)
  from C9_only_topology_columns_change [OF c] n c show ?thesis
    by (simp add: example_store_def)
qed

section \<open>Edge costs and the road table\<close>

lemma dist2d_nonneg: "0 \<le> dist2d p q"
  by (simp add: dist2d_def)

lemma path_length_nonneg: "0 \<le> path_length cs"
  by (induction cs rule: path_length.induct) (simp_all add: dist2d_nonneg)

lemma geom_length_nonneg: "0 \<le> geom_length geom"
proof (cases geom)
  case (MultiLineString parts)
  have "0 \<le> sum_list (map path_length parts)"
    by (rule sum_list_nonneg) (auto simp: path_length_nonneg)
  with MultiLineString show ?thesis by simp
qed (simp_all add: path_length_nonneg)

lemma great_circle_arg_bounds:
  fixes a b k :: real
  assumes "- 1 \<le> k" and "k \<le> 1"
  shows "- 1 \<le> sin a * sin b + cos a * cos b * k"
    and "sin a * sin b + cos a * cos b * k \<le> 1"
proof -
  have up: "cos (a - b) \<le> 1" "- cos (a + b) \<le> 1"
    and lo: "- 1 \<le> cos (a - b)" "- 1 \<le> - cos (a + b)"
    using cos_le_one [of "a - b"] cos_ge_minus_one [of "a + b"]
      cos_ge_minus_one [of "a - b"] cos_le_one [of "a + b"] by simp_all
  have d: "cos (a - b) = cos a * cos b + sin a * sin b"
    and s: "cos (a + b) = cos a * cos b - sin a * sin b"
    by (simp_all add: cos_diff cos_add)
  show "- 1 \<le> sin a * sin b + cos a * cos b * k"
  proof (cases "0 \<le> cos a * cos b")
    case True
    have "cos a * cos b * (- 1) \<le> cos a * cos b * k"
      using True assms(1) by (rule mult_left_mono [rotated])
    with lo(2) s show ?thesis by simp
  next
    case False
    then have "cos a * cos b \<le> 0" by simp
    with assms(2) have "cos a * cos b * 1 \<le> cos a * cos b * k"
      by (rule mult_left_mono_neg)
    with lo(1) d show ?thesis by simp
  qed
  show "sin a * sin b + cos a * cos b * k \<le> 1"
  proof (cases "0 \<le> cos a * cos b")
    case True
    have "cos a * cos b * k \<le> cos a * cos b * 1"
      using True assms(2) by (rule mult_left_mono [rotated])
    with up(1) d show ?thesis by simp
  next
    case False
    then have "cos a * cos b \<le> 0" by simp
    with assms(1) have "cos a * cos b * k \<le> cos a * cos b * (- 1)"
      by (rule mult_left_mono_neg)
    with up(2) s show ?thesis by simp
  qed
qed

lemma great_circle_nonneg: "0 \<le> great_circle p q"
proof -
  let ?y = "sin (radians (snd p)) * sin (radians (snd q)) +
            cos (radians (snd p)) * cos (radians (snd q)) * cos (radians (fst q - fst p))"
  have "- 1 \<le> ?y" "?y \<le> 1"
    by (rule great_circle_arg_bounds; simp)+
  then have "0 \<le> arccos ?y" by (rule arccos_lbound)
  then show ?thesis by (simp add: great_circle_def)
qed

lemma geographic_path_length_nonneg: "0 \<le> geographic_path_length cs"
  by (induction cs rule: geographic_path_length.induct) (simp_all add: great_circle_nonneg)

lemma geographic_length_nonneg: "0 \<le> geographic_length geom"
proof (cases geom)
  case (MultiLineString parts)
  have "0 \<le> sum_list (map geographic_path_length parts)"
    by (rule sum_list_nonneg) (auto simp: geographic_path_length_nonneg)
  with MultiLineString show ?thesis by simp
qed (simp_all add: geographic_path_length_nonneg)

lemma add_serial_id_geometry: "geometry (add_serial_id t) = geometry t"
  by (simp add: add_serial_id_def)

lemma add_serial_id_other:
  "name \<noteq> ''id'' \<Longrightarrow> map_of (columns (add_serial_id t)) name = map_of (columns t) name"
  by (simp add: add_serial_id_def map_add_def split: option.splits)

lemma add_serial_id_id:
  "map_of (columns (add_serial_id t)) ''id'' =
     (case map_of (columns t) ''id'' of
        None \<Rightarrow> Some (map (\<lambda>i. CInt (int i)) [1..<Suc (length (geometry t))])
      | Some ids \<Rightarrow> Some ids)"
  by (simp add: add_serial_id_def map_add_def split: option.splits)

lemma setup_result:
  assumes "build_topology_in_python gdf = Inr (g', ns)"
  shows "\<exists>t. setup_roads st_length gdf = Inr (t, ns) \<and>
           geometry t = geometry gdf \<and>
           column t ''cost'' = Some (map (\<lambda>g. real_cell (st_length g)) (geometry gdf)) \<and>
           column t ''reverse_cost'' = Some (map (\<lambda>g. real_cell (st_length g)) (geometry gdf)) \<and>
           column t ''source'' = column g' ''source'' \<and>
           column t ''target'' = column g' ''target'' \<and>
           column t ''id'' =
             (case column gdf ''id'' of
                None \<Rightarrow> Some (map (\<lambda>i. CInt (int i)) [1..<Suc (length (geometry gdf))])
              | Some ids \<Rightarrow> Some ids)"
proof -
  note res = build_result [OF assms]
  define t0 where "t0 = add_serial_id g'"
  define cs where "cs = map (\<lambda>g. real_cell (st_length g)) (geometry gdf)"
  define t1 where "t1 = t0\<lparr>columns := AList.update ''cost'' cs (columns t0)\<rparr>"
  define t2 where "t2 = t1\<lparr>columns := AList.update ''reverse_cost'' cs (columns t1)\<rparr>"
  have g0: "geometry t0 = geometry gdf"
    by (simp add: t0_def add_serial_id_geometry res(1))
  have c0: "map_of (columns t0) ''cost'' = Some (map (\<lambda>g. CFloat (row_cost g)) (geometry gdf))"
    using res(4) by (simp add: t0_def add_serial_id_other column_def)
  have r0: "map_of (columns t0) ''reverse_cost'' = Some (map (\<lambda>g. CFloat (row_cost g)) (geometry gdf))"
    using res(5) by (simp add: t0_def add_serial_id_other column_def)
  have u1: "update_cost st_length t0 = Inr t1"
    by (simp add: update_cost_def c0 g0 t1_def cs_def)
  have r1: "map_of (columns t1) ''reverse_cost'' = Some (map (\<lambda>g. CFloat (row_cost g)) (geometry gdf))"
    by (simp add: t1_def column_update_other r0)
  have c1: "map_of (columns t1) ''cost'' = Some cs"
    by (simp add: t1_def column_update_same)
  have u2: "update_reverse_cost t1 = Inr t2"
    by (simp add: update_reverse_cost_def r1 c1 t2_def)
  have s: "setup_roads st_length gdf = Inr (t2, ns)"
    by (simp add: setup_roads_def assms u1 u2 flip: t0_def)
  have g2: "geometry t2 = geometry gdf"
    by (simp add: t2_def t1_def g0)
  have c2: "column t2 ''cost'' = Some cs"
    by (simp add: column_def t2_def column_update_other c1)
  have r2: "column t2 ''reverse_cost'' = Some cs"
    by (simp add: column_def t2_def column_update_same)
  have s2: "column t2 ''source'' = column g' ''source''"
    by (simp add: column_def t2_def t1_def column_update_other t0_def add_serial_id_other)
  have tg2: "column t2 ''target'' = column g' ''target''"
    by (simp add: column_def t2_def t1_def column_update_other t0_def add_serial_id_other)
  have "''id'' \<notin> topology_columns" by (simp add: topology_columns_def)
  then have idc: "column g' ''id'' = column gdf ''id''" by (rule res(8))
  have i2: "column t2 ''id'' =
             (case column gdf ''id'' of
                None \<Rightarrow> Some (map (\<lambda>i. CInt (int i)) [1..<Suc (length (geometry gdf))])
              | Some ids \<Rightarrow> Some ids)"
    using idc
    by (simp add: column_def t2_def t1_def column_update_other t0_def add_serial_id_id res(1)
        split: option.splits)
  from s g2 c2 r2 s2 tg2 i2 show ?thesis unfolding cs_def by blast
qed

lemma row_cost_nonempty: "\<not> is_empty geom \<Longrightarrow> row_cost (Some geom) = geom_length geom"
  by (simp add: row_cost_def)

lemma row_cost_null: "null_or_empty g \<Longrightarrow> row_cost g = 0"
  by (auto simp: row_cost_def null_or_empty_def split: option.splits)

lemma row_ends_null: "null_or_empty g \<Longrightarrow> row_ends g = None"
  by (auto simp: row_ends_def null_or_empty_def split: option.splits)

lemma edges_sql_rows:
  assumes "column t ''id'' = Some ids" and "column t ''source'' = Some ss"
    and "column t ''target'' = Some ts" and "column t ''cost'' = Some cs"
    and "column t ''reverse_cost'' = Some rs"
    and "length ids = n" and "length ss = n" and "length ts = n" and "length cs = n"
    and "length rs = n"
  shows "\<exists>edges. edges_sql t = Inr edges \<and> length edges = n \<and>
           (\<forall>i<n. edges ! i = \<lparr>edge_id = ids ! i, edge_source = ss ! i, edge_target = ts ! i,
                                 edge_cost = cs ! i, edge_reverse_cost = rs ! i\<rparr>)"
  using assms by (simp add: edges_sql_def column_def)

lemma frame_ok_column:
  "frame_ok gdf \<Longrightarrow> column gdf name = Some vals \<Longrightarrow> length vals = length (geometry gdf)"
proof -
  assume f: "frame_ok gdf" and c: "column gdf name = Some vals"
  from c have "(name, vals) \<in> set (columns gdf)"
    unfolding column_def by (rule map_of_SomeD)
  with f have "length (snd (name, vals)) = length (geometry gdf)"
    unfolding frame_ok_def by (rule bspec)
  then show ?thesis by simp
qed

lemma setup_id_length:
  assumes "frame_ok gdf"
  shows "\<exists>ids. (case column gdf ''id'' of
                None \<Rightarrow> Some (map (\<lambda>i. CInt (int i)) [1..<Suc (length (geometry gdf))])
              | Some ids \<Rightarrow> Some ids) = Some ids \<and> length ids = length (geometry gdf)"
proof (cases "column gdf ''id''")
  case None
  have "length [1..<Suc (length (geometry gdf))] = length (geometry gdf)"
    by (simp only: length_upt diff_Suc_1)
  with None show ?thesis by (simp del: upt_Suc)
next
  case (Some ids)
  with frame_ok_column [OF assms Some] show ?thesis by simp
qed

lemma row_has_node:
  assumes "list_all ok_row (geometry gdf)" and "i < length (geometry gdf)"
    and "geometry gdf ! i = Some geom" and "\<not> is_empty geom"
  shows "endpoint_keys (geometry gdf) \<noteq> []"
proof -
  have m: "geometry gdf ! i \<in> set (geometry gdf)" using assms(2) by simp
  with assms(1) have "ok_row (geometry gdf ! i)" by (simp add: list_all_iff)
  moreover have "\<not> null_or_empty (geometry gdf ! i)"
    using assms(3,4) by (simp add: null_or_empty_def)
  ultimately obtain s e where "row_ends (geometry gdf ! i) = Some (s, e)"
    by (auto simp: ok_row_iff)
  from row_ends_in_keys(1) [OF m this] show ?thesis by auto
qed

lemma build_cost_planar:
  assumes "build_topology_in_python gdf = Inr (g', ns)"
    and "i < length (geometry gdf)" and "geometry gdf ! i = Some geom" and "\<not> is_empty geom"
  shows "\<exists>cst. column g' ''cost'' = Some cst \<and> column g' ''reverse_cost'' = Some cst \<and>
           cst ! i = CFloat (geom_length geom)"
  using build_result(4,5) [OF assms(1)] assms(2-4) by (simp add: row_cost_nonempty)

lemma null_frame_raises:
  "build_topology_in_python \<lparr>geometry = [None], columns = []\<rparr> = Inl ValueError"
  by (rule build_no_node_raises) (simp_all add: endpoint_keys_def row_ends_def)

text \<open>
  A row whose geometry is null or empty: no source, no target and cost 0 in the frame the
  builder returns; and a row of the edge query on the loaded table like every other row,
  with source and target absent.
\<close>

lemma null_geometry_row:
  assumes "build_topology_in_python gdf = Inr (g', ns)"
    and "i < length (geometry gdf)"
    and "null_or_empty (geometry gdf ! i)"
  shows "\<exists>src tgt cst.
           column g' ''source'' = Some src \<and> column g' ''target'' = Some tgt \<and>
           column g' ''cost'' = Some cst \<and>
           src ! i = CNone \<and> tgt ! i = CNone \<and> cst ! i = CFloat 0"
proof -
  note res = build_result [OF assms(1)]
  have re: "row_ends (geometry gdf ! i) = None" using assms(3) by (rule row_ends_null)
  have "map (\<lambda>g. id_cell (row_source (node_dict ns) g)) (geometry gdf) ! i = CNone"
    using assms(2) re by (simp add: row_source_def id_cell_def)
  moreover have "map (\<lambda>g. id_cell (row_target (node_dict ns) g)) (geometry gdf) ! i = CNone"
    using assms(2) re by (simp add: row_target_def id_cell_def)
  moreover have "map (\<lambda>g. CFloat (row_cost g)) (geometry gdf) ! i = CFloat 0"
    using assms(2) row_cost_null [OF assms(3)] by simp
  ultimately show ?thesis using res(2) res(3) res(4) by blast
qed

lemma null_geometry_edge:
  assumes "build_topology_in_python gdf = Inr (g', ns)"
    and "frame_ok gdf"
    and "i < length (geometry gdf)"
    and "null_or_empty (geometry gdf ! i)"
  shows "\<exists>t edges.
           setup_roads st_length gdf = Inr (t, ns) \<and>
           edges_sql t = Inr edges \<and> length edges = length (geometry gdf) \<and>
           edge_source (edges ! i) = CNone \<and> edge_target (edges ! i) = CNone"
proof -
  note res = build_result [OF assms(1)]
  define n where "n = length (geometry gdf)"
  define src where "src = map (\<lambda>g. id_cell (row_source (node_dict ns) g)) (geometry gdf)"
  define tgt where "tgt = map (\<lambda>g. id_cell (row_target (node_dict ns) g)) (geometry gdf)"
  define cs where "cs = map (\<lambda>g. real_cell (st_length g)) (geometry gdf)"
  have re: "row_ends (geometry gdf ! i) = None" using assms(4) by (rule row_ends_null)
  have si: "src ! i = CNone"
    using assms(3) re by (simp add: src_def row_source_def id_cell_def)
  have ti: "tgt ! i = CNone"
    using assms(3) re by (simp add: tgt_def row_target_def id_cell_def)
  have ls: "length src = n" and lt: "length tgt = n" and lc: "length cs = n"
    by (simp_all add: src_def tgt_def cs_def n_def)
  from setup_id_length [OF assms(2)] obtain ids where
    ids: "(case column gdf ''id'' of
              None \<Rightarrow> Some (map (\<lambda>i. CInt (int i)) [1..<Suc (length (geometry gdf))])
            | Some ids \<Rightarrow> Some ids) = Some ids" and li: "length ids = n"
    unfolding n_def by blast
  from setup_result [OF assms(1), of st_length] obtain t where
    t: "setup_roads st_length gdf = Inr (t, ns)"
    and tc: "column t ''cost'' = Some cs"
    and tr: "column t ''reverse_cost'' = Some cs"
    and ts: "column t ''source'' = column g' ''source''"
    and tt: "column t ''target'' = column g' ''target''"
    and tid: "column t ''id'' =
           (case column gdf ''id'' of
              None \<Rightarrow> Some (map (\<lambda>i. CInt (int i)) [1..<Suc (length (geometry gdf))])
            | Some ids \<Rightarrow> Some ids)"
    unfolding cs_def by blast
  have ts': "column t ''source'' = Some src" using ts res(2) by (simp add: src_def)
  have tt': "column t ''target'' = Some tgt" using tt res(3) by (simp add: tgt_def)
  have ti': "column t ''id'' = Some ids" using tid ids by simp
  from edges_sql_rows [OF ti' ts' tt' tc tr li ls lt lc lc] obtain edges where
    e: "edges_sql t = Inr edges" "length edges = n"
    and ei: "\<forall>i<n. edges ! i = \<lparr>edge_id = ids ! i, edge_source = src ! i, edge_target = tgt ! i,
                               edge_cost = cs ! i, edge_reverse_cost = cs ! i\<rparr>"
    by blast
  from ei assms(3) have "edges ! i = \<lparr>edge_id = ids ! i, edge_source = src ! i,
      edge_target = tgt ! i, edge_cost = cs ! i, edge_reverse_cost = cs ! i\<rparr>"
    by (simp add: n_def)
  then have "edge_source (edges ! i) = CNone" "edge_target (edges ! i) = CNone"
    using si ti by simp_all
  with t e show ?thesis unfolding n_def by blast
qed

text \<open>
  C3. Forward cost, reverse cost and the length of the geometry, for an edge of a
  non-empty geometry. The builder's columns hold \<open>geom.length\<close> in both directions; when
  the road table is loaded, \<open>UPDATE roads SET cost = ST_Length(geom::geography)\<close> and
  \<open>UPDATE roads SET reverse_cost = cost\<close> write the geographic length over both. In the
  loaded table, the one every path search reads, forward cost = reverse cost = geographic
  length of the geometry, which is not negative.
\<close>

theorem C3_cost_is_geographic_length:
  assumes "list_all ok_row (geometry gdf)"
    and "i < length (geometry gdf)"
    and "geometry gdf ! i = Some geom"
    and "\<not> is_empty geom"
  shows "\<exists>t ns c r.
           setup_roads (map_option geographic_length) gdf = Inr (t, ns) \<and>
           geometry t = geometry gdf \<and>
           column t ''cost'' = Some c \<and> column t ''reverse_cost'' = Some r \<and>
           c ! i = CFloat (geographic_length geom) \<and> r ! i = c ! i \<and>
           0 \<le> geographic_length geom"
proof -
  from build_total [OF assms(1) row_has_node [OF assms]] obtain g' ns
    where b: "build_topology_in_python gdf = Inr (g', ns)" by blast
  define cs where
    "cs = map (\<lambda>g. real_cell (map_option geographic_length g)) (geometry gdf)"
  from setup_result [OF b, of "map_option geographic_length"] obtain t where
    t: "setup_roads (map_option geographic_length) gdf = Inr (t, ns)"
    and g: "geometry t = geometry gdf"
    and c: "column t ''cost'' = Some cs"
    and r: "column t ''reverse_cost'' = Some cs"
    unfolding cs_def by blast
  have ci: "cs ! i = CFloat (geographic_length geom)"
    using assms(2,3) by (simp add: cs_def real_cell_def)
  have ri: "cs ! i = cs ! i" ..
  from t g c r ci ri geographic_length_nonneg [of geom] show ?thesis by blast
qed

theorem C3_witness:
  "list_all ok_row (geometry example_roads) \<and>
   geometry example_roads ! 0 = Some (LineString [(0, 0), (3, 4)]) \<and>
   (\<exists>t ns c r.
      setup_roads (map_option geographic_length) example_roads = Inr (t, ns) \<and>
      column t ''cost'' = Some c \<and> column t ''reverse_cost'' = Some r \<and>
      c ! 0 = CFloat (great_circle (0, 0) (3, 4)) \<and> r ! 0 = c ! 0 \<and>
      0 \<le> great_circle (0, 0) (3, 4))"
proof -
  have g: "geometry example_roads ! 0 = Some (LineString [(0, 0), (3, 4)])"
    and i: "0 < length (geometry example_roads)"
    by (simp_all add: example_roads_def)
  have ne: "\<not> is_empty (LineString [(0, 0), (3, 4)])" by simp
  have gl: "geographic_length (LineString [(0, 0), (3, 4)]) = great_circle (0, 0) (3, 4)"
    by simp
  from C3_cost_is_geographic_length [OF example_ok i g ne] obtain t ns c r where
    f: "setup_roads (map_option geographic_length) example_roads = Inr (t, ns)"
      "column t ''cost'' = Some c" "column t ''reverse_cost'' = Some r"
      "c ! 0 = CFloat (geographic_length (LineString [(0, 0), (3, 4)]))" "r ! 0 = c ! 0"
      "0 \<le> geographic_length (LineString [(0, 0), (3, 4)])"
    by blast
  from f(4) gl have c0: "c ! 0 = CFloat (great_circle (0, 0) (3, 4))" by simp
  from f(6) gl have n0: "0 \<le> great_circle (0, 0) (3, 4)" by simp
  from example_ok g f(1-3) c0 f(5) n0 show ?thesis by blast
qed

section \<open>The nearest-facility handler\<close>

lemma round_half_even_nearest: "\<bar>of_int (round_half_even x) - x\<bar> \<le> 1 / 2"
proof -
  have "of_int \<lfloor>x\<rfloor> \<le> x" "x < of_int \<lfloor>x\<rfloor> + 1" by linarith+
  then show ?thesis by (auto simp: round_half_even_def Let_def)
qed

lemma route_res_snapped:
  "sql_nearest_node db lng lat = Some start_node \<Longrightarrow>
   sql_nearest_node db target_lng target_lat = Some end_node \<Longrightarrow>
   route_res db lng lat target_lng target_lat = sql_route_union db start_node end_node"
  by (simp add: route_res_def)

lemma get_nearest_none:
  "sql_find_closest db (''%'' @ category @ ''%'') lng lat = None \<Longrightarrow>
   get_nearest db lat lng category = Inr \<lparr>collection_type = ''FeatureCollection'', features = []\<rparr>"
  by (simp add: get_nearest_def)

lemma get_nearest_road:
  "sql_find_closest db (''%'' @ category @ ''%'') lng lat =
     Some (target_name, target_cat, target_lng, target_lat) \<Longrightarrow>
   route_res db lng lat target_lng target_lat = Some (Some route_geom, Some total_cost) \<Longrightarrow>
   route_geom \<noteq> [] \<Longrightarrow>
   get_nearest db lat lng category =
     Inr \<lparr>collection_type = ''FeatureCollection'',
          features = [destination_point target_name target_cat target_lng target_lat,
                      road_route route_geom (round_half_even total_cost)]\<rparr>"
  by (simp add: get_nearest_def)

lemma get_nearest_raises:
  "sql_find_closest db (''%'' @ category @ ''%'') lng lat =
     Some (target_name, target_cat, target_lng, target_lat) \<Longrightarrow>
   route_res db lng lat target_lng target_lat = Some (Some route_geom, None) \<Longrightarrow>
   route_geom \<noteq> [] \<Longrightarrow>
   get_nearest db lat lng category = Inl TypeError"
  by (simp add: get_nearest_def)

lemma get_nearest_fallback:
  "sql_find_closest db (''%'' @ category @ ''%'') lng lat =
     Some (target_name, target_cat, target_lng, target_lat) \<Longrightarrow>
   (case route_res db lng lat target_lng target_lat of
      Some (Some route_geom, cost_sum) \<Rightarrow> route_geom = []
    | _ \<Rightarrow> True) \<Longrightarrow>
   get_nearest db lat lng category =
     Inr \<lparr>collection_type = ''FeatureCollection'',
          features = [destination_point target_name target_cat target_lng target_lat,
                      straight_line lng lat target_lng target_lat
                        (round_half_even (sql_st_distance db lng lat target_lng target_lat))]\<rparr>"
  by (simp add: get_nearest_def Let_def split: option.splits prod.splits)

lemma straight_line_props:
  "feature_geometry (straight_line lng lat target_lng target_lat n) =
     LineStringGeom [[lng, lat], [target_lng, target_lat]]"
  "get_prop (straight_line lng lat target_lng target_lat n) ''type'' = Some (PStr ''route'')"
  "get_prop (straight_line lng lat target_lng target_lat n) ''style'' = Some (PStr ''dashed'')"
  "get_prop (straight_line lng lat target_lng target_lat n) ''distance_msg'' =
     Some (PStr (''Straight Distance: '' @ str_int n @ ''m (No road path)''))"
  by (simp_all add: straight_line_def get_prop_def)

lemma road_route_props:
  "feature_geometry (road_route route_geom n) = RawGeoJSON route_geom"
  "get_prop (road_route route_geom n) ''type'' = Some (PStr ''route'')"
  "get_prop (road_route route_geom n) ''style'' = None"
  "get_prop (road_route route_geom n) ''distance_msg'' =
     Some (PStr (''Road Distance: '' @ str_int n @ ''m''))"
  by (simp_all add: road_route_def get_prop_def)

lemma destination_point_props:
  "feature_geometry (destination_point target_name target_cat target_lng target_lat) =
     PointGeom [target_lng, target_lat]"
  "get_prop (destination_point target_name target_cat target_lng target_lat) ''name'' =
     Some (PStr target_name)"
  "get_prop (destination_point target_name target_cat target_lng target_lat) ''category'' =
     Some (PStr target_cat)"
  "get_prop (destination_point target_name target_cat target_lng target_lat) ''is_target'' =
     Some (PBool True)"
  by (simp_all add: destination_point_def get_prop_def)

lemma str_int_234: "str_int 234 = ''234''"
  by (simp add: str_int_def digit_char_def)

lemma str_int_600: "str_int 600 = ''600''"
  by (simp add: str_int_def digit_char_def)

lemma round_469_2: "round_half_even (469 / 2) = 234"
  by (simp add: round_half_even_def)

lemma round_1201_2: "round_half_even (1201 / 2) = 600"
  by (simp add: round_half_even_def)

lemma example_db_simps:
  "sql_find_closest (example_db facility route_row) search_term lng lat = facility"
  "sql_nearest_node (example_db facility route_row) 0 0 = Some 1"
  "sql_nearest_node (example_db facility route_row) 3 4 = Some 2"
  "sql_route_union (example_db facility route_row) start_node end_node = route_row"
  "sql_st_distance (example_db facility route_row) lng lat target_lng target_lat = 469 / 2"
  by (simp_all add: example_db_def)

lemma example_route_res:
  "route_res (example_db facility route_row) 0 0 3 4 = route_row"
  by (simp add: route_res_def example_db_simps)

lemma example_empty:
  "get_nearest (example_db None route_row) 0 0 ''bank'' =
     Inr \<lparr>collection_type = ''FeatureCollection'', features = []\<rparr>"
  by (rule get_nearest_none) (simp add: example_db_simps)

lemma example_geojson_nonempty: "example_geojson \<noteq> []"
  by (simp add: example_geojson_def)

lemma example_road:
  "get_nearest (example_db (Some example_bank) (Some example_path)) 0 0 ''bank'' =
     Inr \<lparr>collection_type = ''FeatureCollection'',
          features = [destination_point ''First Bank'' ''Bank'' 3 4,
                      road_route example_geojson 600]\<rparr>"
proof -
  have "get_nearest (example_db (Some example_bank) (Some example_path)) 0 0 ''bank'' =
     Inr \<lparr>collection_type = ''FeatureCollection'',
          features = [destination_point ''First Bank'' ''Bank'' 3 4,
                      road_route example_geojson (round_half_even (1201 / 2))]\<rparr>"
    by (rule get_nearest_road)
       (simp_all add: example_db_simps example_route_res example_bank_def example_path_def
          example_geojson_nonempty)
  then show ?thesis by (simp only: round_1201_2)
qed

lemma route_row_cases:
  obtains (road) route_geom total_cost where
      "row = Some (Some route_geom, Some total_cost)" "route_geom \<noteq> []"
  | (raises) route_geom where "row = Some (Some route_geom, None)" "route_geom \<noteq> []"
  | (fallback) "(case row of Some (Some route_geom, cost_sum) \<Rightarrow> route_geom = [] | _ \<Rightarrow> True)"
proof (cases row)
  case None
  then show ?thesis by (intro fallback) simp
next
  case (Some r)
  obtain g c where r: "r = (g, c)" by (cases r)
  show ?thesis
  proof (cases g)
    case None
    with Some r show ?thesis by (intro fallback) simp
  next
    case g: (Some route_geom)
    show ?thesis
    proof (cases "route_geom = []")
      case True
      with Some r g show ?thesis by (intro fallback) simp
    next
      case False
      show ?thesis
      proof (cases c)
        case None
        with Some r g False show ?thesis by (intro raises [of route_geom]) simp_all
      next
        case c: (Some total_cost)
        with Some r g False show ?thesis by (intro road [of route_geom total_cost]) simp_all
      qed
    qed
  qed
qed

lemma example_straight:
  "get_nearest (example_db (Some example_bank) (Some no_path)) 0 0 ''bank'' =
     Inr \<lparr>collection_type = ''FeatureCollection'',
          features = [destination_point ''First Bank'' ''Bank'' 3 4,
                      straight_line 0 0 3 4 234]\<rparr>"
proof -
  have "get_nearest (example_db (Some example_bank) (Some no_path)) 0 0 ''bank'' =
     Inr \<lparr>collection_type = ''FeatureCollection'',
          features = [destination_point ''First Bank'' ''Bank'' 3 4,
                      straight_line 0 0 3 4
                        (round_half_even
                           (sql_st_distance (example_db (Some example_bank) (Some no_path)) 0 0 3 4))]\<rparr>"
    by (rule get_nearest_fallback)
       (simp_all add: example_db_simps example_route_res example_bank_def no_path_def)
  then show ?thesis by (simp only: example_db_simps round_469_2)
qed

text \<open>
  C1. The straight-line fallback. A facility is found, both points snap to a vertex, and
  no path joins the two vertices: the path search gives no row, so the union of the path's
  geometries is NULL. Then \<open>get_nearest\<close> returns the facility and a second feature: the
  two-point line from the origin to the facility, marked dashed, whose message reports the
  database's geographic distance between the two points rounded to a whole number (at most
  one half away from it) and says that there is no road path.
\<close>

theorem C1_straight_line_fallback:
  assumes "sql_find_closest db (''%'' @ category @ ''%'') lng lat =
             Some (target_name, target_cat, target_lng, target_lat)"
    and "sql_nearest_node db lng lat = Some start_node"
    and "sql_nearest_node db target_lng target_lat = Some end_node"
    and "sql_route_union db start_node end_node = Some (None, cost_sum)"
  shows "\<exists>dest line n.
           get_nearest db lat lng category =
             Inr \<lparr>collection_type = ''FeatureCollection'', features = [dest, line]\<rparr> \<and>
           feature_geometry line = LineStringGeom [[lng, lat], [target_lng, target_lat]] \<and>
           n = round_half_even (sql_st_distance db lng lat target_lng target_lat) \<and>
           \<bar>of_int n - sql_st_distance db lng lat target_lng target_lat\<bar> \<le> 1 / 2 \<and>
           get_prop line ''distance_msg'' =
             Some (PStr (''Straight Distance: '' @ str_int n @ ''m (No road path)'')) \<and>
           get_prop line ''style'' = Some (PStr ''dashed'')"
proof -
  define dest where "dest = destination_point target_name target_cat target_lng target_lat"
  define n where "n = round_half_even (sql_st_distance db lng lat target_lng target_lat)"
  define line where "line = straight_line lng lat target_lng target_lat n"
  have rr: "route_res db lng lat target_lng target_lat = Some (None, cost_sum)"
    using assms(2-4) by (simp add: route_res_snapped)
  have r: "get_nearest db lat lng category =
     Inr \<lparr>collection_type = ''FeatureCollection'', features = [dest, line]\<rparr>"
    unfolding dest_def line_def n_def
    by (rule get_nearest_fallback [OF assms(1)]) (simp add: rr)
  have g: "feature_geometry line = LineStringGeom [[lng, lat], [target_lng, target_lat]]"
    unfolding line_def by (rule straight_line_props)
  have m: "get_prop line ''distance_msg'' =
             Some (PStr (''Straight Distance: '' @ str_int n @ ''m (No road path)''))"
    unfolding line_def by (rule straight_line_props)
  have st: "get_prop line ''style'' = Some (PStr ''dashed'')"
    unfolding line_def by (rule straight_line_props)
  have nr: "\<bar>of_int n - sql_st_distance db lng lat target_lng target_lat\<bar> \<le> 1 / 2"
    unfolding n_def by (rule round_half_even_nearest)
  from r g n_def nr m st show ?thesis by blast
qed

theorem C1_witness:
  "\<exists>dest line.
     get_nearest (example_db (Some example_bank) (Some no_path)) 0 0 ''bank'' =
       Inr \<lparr>collection_type = ''FeatureCollection'', features = [dest, line]\<rparr> \<and>
     feature_geometry line = LineStringGeom [[0, 0], [3, 4]] \<and>
     get_prop line ''distance_msg'' = Some (PStr ''Straight Distance: 234m (No road path)'') \<and>
     get_prop line ''style'' = Some (PStr ''dashed'')"
proof -
  have a: "sql_find_closest (example_db (Some example_bank) (Some no_path)) (''%'' @ ''bank'' @ ''%'') 0 0 =
             Some (''First Bank'', ''Bank'', 3, 4)"
    by (simp add: example_db_simps example_bank_def)
  have b: "sql_route_union (example_db (Some example_bank) (Some no_path)) 1 2 = Some (None, None)"
    by (simp add: example_db_simps no_path_def)
  from C1_straight_line_fallback [OF a example_db_simps(2) example_db_simps(3) b]
  obtain dest line n where
    r: "get_nearest (example_db (Some example_bank) (Some no_path)) 0 0 ''bank'' =
          Inr \<lparr>collection_type = ''FeatureCollection'', features = [dest, line]\<rparr>"
      "feature_geometry line = LineStringGeom [[0, 0], [3, 4]]"
      "get_prop line ''style'' = Some (PStr ''dashed'')"
    and n: "n = round_half_even (sql_st_distance (example_db (Some example_bank) (Some no_path)) 0 0 3 4)"
    and m: "get_prop line ''distance_msg'' =
             Some (PStr (''Straight Distance: '' @ str_int n @ ''m (No road path)''))"
    by blast
  from n have "n = 234" by (simp only: example_db_simps round_469_2)
  with m have "get_prop line ''distance_msg'' = Some (PStr ''Straight Distance: 234m (No road path)'')"
    by (simp add: str_int_234)
  with r show ?thesis by blast
qed

text \<open>
  C10. The facility in the response. When a facility is found, every collection
  \<open>get_nearest\<close> returns has the facility as its first feature, a point at the facility's
  coordinates with its name, its category and is_target true, followed by one route
  feature, of the road route or of the straight line; and a collection is returned
  whenever the route row with a geometry has a cost sum.
\<close>

theorem C10_target_feature_present:
  assumes "sql_find_closest db (''%'' @ category @ ''%'') lng lat =
             Some (target_name, target_cat, target_lng, target_lat)"
  shows "(cost_sum_present db lat lng category \<longrightarrow>
            (\<exists>fc. get_nearest db lat lng category = Inr fc)) \<and>
         (\<forall>fc. get_nearest db lat lng category = Inr fc \<longrightarrow>
            (\<exists>dest route.
               features fc = [dest, route] \<and>
               (network_result fc \<or> straight_result fc) \<and>
               feature_type dest = ''Feature'' \<and>
               feature_geometry dest = PointGeom [target_lng, target_lat] \<and>
               get_prop dest ''name'' = Some (PStr target_name) \<and>
               get_prop dest ''category'' = Some (PStr target_cat) \<and>
               get_prop dest ''is_target'' = Some (PBool True)))"
proof -
  define dest where "dest = destination_point target_name target_cat target_lng target_lat"
  have dp: "feature_type dest = ''Feature''"
    "feature_geometry dest = PointGeom [target_lng, target_lat]"
    "get_prop dest ''name'' = Some (PStr target_name)"
    "get_prop dest ''category'' = Some (PStr target_cat)"
    "get_prop dest ''is_target'' = Some (PBool True)"
    by (simp_all add: dest_def destination_point_props) (simp add: destination_point_def)
  consider
    (road) route_geom total_cost where
      "route_res db lng lat target_lng target_lat = Some (Some route_geom, Some total_cost)"
      "route_geom \<noteq> []"
  | (raises) route_geom where
      "route_res db lng lat target_lng target_lat = Some (Some route_geom, None)"
      "route_geom \<noteq> []"
  | (fallback)
      "(case route_res db lng lat target_lng target_lat of
          Some (Some route_geom, cost_sum) \<Rightarrow> route_geom = []
        | _ \<Rightarrow> True)"
    by (rule route_row_cases)
  then show ?thesis
  proof cases
    case road
    define route where "route = road_route route_geom (round_half_even total_cost)"
    define fc0 where "fc0 = \<lparr>collection_type = ''FeatureCollection'', features = [dest, route]\<rparr>"
    have r: "get_nearest db lat lng category = Inr fc0"
      unfolding dest_def route_def fc0_def by (rule get_nearest_road [OF assms road])
    have f: "features fc0 = [dest, route]" by (simp add: fc0_def)
    have "network_result fc0"
      by (simp add: network_result_def fc0_def route_def road_route_props)
    then have k: "network_result fc0 \<or> straight_result fc0" ..
    have ex: "\<exists>fc. get_nearest db lat lng category = Inr fc" using r by (rule exI)
    have "\<exists>d rt. features fc = [d, rt] \<and> (network_result fc \<or> straight_result fc) \<and>
               feature_type d = ''Feature'' \<and>
               feature_geometry d = PointGeom [target_lng, target_lat] \<and>
               get_prop d ''name'' = Some (PStr target_name) \<and>
               get_prop d ''category'' = Some (PStr target_cat) \<and>
               get_prop d ''is_target'' = Some (PBool True)"
      if "get_nearest db lat lng category = Inr fc" for fc
    proof -
      from that r have "fc = fc0" by simp
      with f k dp show ?thesis by blast
    qed
    with ex show ?thesis by blast
  next
    case raises
    have r: "get_nearest db lat lng category = Inl TypeError"
      by (rule get_nearest_raises [OF assms raises])
    have "\<not> cost_sum_present db lat lng category"
      using assms raises by (simp add: cost_sum_present_def)
    with r show ?thesis by simp
  next
    case fallback
    define route where "route = straight_line lng lat target_lng target_lat
                        (round_half_even (sql_st_distance db lng lat target_lng target_lat))"
    define fc0 where "fc0 = \<lparr>collection_type = ''FeatureCollection'', features = [dest, route]\<rparr>"
    have r: "get_nearest db lat lng category = Inr fc0"
      unfolding dest_def route_def fc0_def by (rule get_nearest_fallback [OF assms fallback])
    have f: "features fc0 = [dest, route]" by (simp add: fc0_def)
    have "straight_result fc0"
      by (simp add: straight_result_def fc0_def route_def straight_line_props)
    then have k: "network_result fc0 \<or> straight_result fc0" ..
    have ex: "\<exists>fc. get_nearest db lat lng category = Inr fc" using r by (rule exI)
    have "\<exists>d rt. features fc = [d, rt] \<and> (network_result fc \<or> straight_result fc) \<and>
               feature_type d = ''Feature'' \<and>
               feature_geometry d = PointGeom [target_lng, target_lat] \<and>
               get_prop d ''name'' = Some (PStr target_name) \<and>
               get_prop d ''category'' = Some (PStr target_cat) \<and>
               get_prop d ''is_target'' = Some (PBool True)"
      if "get_nearest db lat lng category = Inr fc" for fc
    proof -
      from that r have "fc = fc0" by simp
      with f k dp show ?thesis by blast
    qed
    with ex show ?thesis by blast
  qed
qed

theorem C10_witness:
  "(\<exists>fc dest route.
      get_nearest (example_db (Some example_bank) (Some example_path)) 0 0 ''bank'' = Inr fc \<and>
      features fc = [dest, route] \<and> network_result fc \<and>
      feature_geometry dest = PointGeom [3, 4] \<and>
      get_prop dest ''name'' = Some (PStr ''First Bank'') \<and>
      get_prop dest ''is_target'' = Some (PBool True)) \<and>
   (\<exists>fc dest route.
      get_nearest (example_db (Some example_bank) (Some no_path)) 0 0 ''bank'' = Inr fc \<and>
      features fc = [dest, route] \<and> straight_result fc \<and>
      feature_geometry dest = PointGeom [3, 4] \<and>
      get_prop dest ''name'' = Some (PStr ''First Bank'') \<and>
      get_prop dest ''is_target'' = Some (PBool True))"
proof -
  have a: "sql_find_closest (example_db (Some example_bank) route_row) (''%'' @ ''bank'' @ ''%'') 0 0 =
             Some (''First Bank'', ''Bank'', 3, 4)" for route_row
    by (simp add: example_db_simps example_bank_def)
  have c1: "cost_sum_present (example_db (Some example_bank) (Some example_path)) 0 0 ''bank''"
    by (simp add: cost_sum_present_def example_db_simps example_route_res example_bank_def
        example_path_def)
  have c2: "cost_sum_present (example_db (Some example_bank) (Some no_path)) 0 0 ''bank''"
    by (simp add: cost_sum_present_def example_db_simps example_route_res example_bank_def
        no_path_def)
  note t1 = C10_target_feature_present [OF a [of "Some example_path"]]
  note t2 = C10_target_feature_present [OF a [of "Some no_path"]]
  from t1 c1 obtain fc1 where
    r1: "get_nearest (example_db (Some example_bank) (Some example_path)) 0 0 ''bank'' = Inr fc1"
    by blast
  with t1 obtain d1 rt1 where
    f1: "features fc1 = [d1, rt1]" "feature_geometry d1 = PointGeom [3, 4]"
      "get_prop d1 ''name'' = Some (PStr ''First Bank'')"
      "get_prop d1 ''is_target'' = Some (PBool True)"
    by blast
  from r1 have n1: "network_result fc1"
    unfolding example_road by (auto simp: network_result_def road_route_props)
  from t2 c2 obtain fc2 where
    r2: "get_nearest (example_db (Some example_bank) (Some no_path)) 0 0 ''bank'' = Inr fc2"
    by blast
  with t2 obtain d2 rt2 where
    f2: "features fc2 = [d2, rt2]" "feature_geometry d2 = PointGeom [3, 4]"
      "get_prop d2 ''name'' = Some (PStr ''First Bank'')"
      "get_prop d2 ''is_target'' = Some (PBool True)"
    by blast
  from r2 have n2: "straight_result fc2"
    unfolding example_straight by (auto simp: straight_result_def straight_line_props)
  from r1 f1 n1 r2 f2 n2 show ?thesis by blast
qed

text \<open>
  C6. The three outcomes. A query that returns gives exactly one of three responses: no
  feature, when no facility is found; the facility and a road route, when the route row
  has a geometry; the facility and the straight line otherwise. The response is said to
  carry an explicit tag naming the outcome. It carries none: the collection has a type and
  a feature list only, the route feature has property type = route in both outcomes, and
  the caller tells them apart by the feature list being empty and by the optional style
  property, dashed on the straight line and absent on the road route.
\<close>

theorem C6_one_of_three_outcomes:
  assumes "cost_sum_present db lat lng category"
  shows "\<exists>fc. get_nearest db lat lng category = Inr fc \<and>
           collection_type fc = ''FeatureCollection'' \<and>
           (empty_result fc \<longleftrightarrow> \<not> facility_found db lat lng category) \<and>
           (network_result fc \<longleftrightarrow> road_path_found db lat lng category) \<and>
           (straight_result fc \<longleftrightarrow>
              facility_found db lat lng category \<and> \<not> road_path_found db lat lng category) \<and>
           (empty_result fc \<and> \<not> network_result fc \<and> \<not> straight_result fc \<or>
            \<not> empty_result fc \<and> network_result fc \<and> \<not> straight_result fc \<or>
            \<not> empty_result fc \<and> \<not> network_result fc \<and> straight_result fc)"
proof (cases "sql_find_closest db (''%'' @ category @ ''%'') lng lat")
  case None
  define fc0 where "fc0 = \<lparr>collection_type = ''FeatureCollection'', features = []\<rparr>"
  have r: "get_nearest db lat lng category = Inr fc0"
    unfolding fc0_def using None by (rule get_nearest_none)
  have ct: "collection_type fc0 = ''FeatureCollection''" by (simp add: fc0_def)
  have e: "empty_result fc0" by (simp add: empty_result_def fc0_def)
  have n: "\<not> network_result fc0" by (simp add: network_result_def fc0_def)
  have s: "\<not> straight_result fc0" by (simp add: straight_result_def fc0_def)
  have ff: "\<not> facility_found db lat lng category"
    using None by (simp add: facility_found_def)
  have rp: "\<not> road_path_found db lat lng category"
    using None by (simp add: road_path_found_def)
  from r ct e n s ff rp show ?thesis by blast
next
  case (Some target)
  obtain target_name target_cat target_lng target_lat
    where target: "target = (target_name, target_cat, target_lng, target_lat)"
    by (cases target)
  from Some target have found:
    "sql_find_closest db (''%'' @ category @ ''%'') lng lat =
       Some (target_name, target_cat, target_lng, target_lat)" by simp
  define dest where "dest = destination_point target_name target_cat target_lng target_lat"
  have ff: "facility_found db lat lng category"
    using found by (simp add: facility_found_def)
  consider
    (road) route_geom total_cost where
      "route_res db lng lat target_lng target_lat = Some (Some route_geom, Some total_cost)"
      "route_geom \<noteq> []"
  | (raises) route_geom where
      "route_res db lng lat target_lng target_lat = Some (Some route_geom, None)"
      "route_geom \<noteq> []"
  | (fallback)
      "(case route_res db lng lat target_lng target_lat of
          Some (Some route_geom, cost_sum) \<Rightarrow> route_geom = []
        | _ \<Rightarrow> True)"
    by (rule route_row_cases)
  then show ?thesis
  proof cases
    case road
    define route where "route = road_route route_geom (round_half_even total_cost)"
    define fc0 where "fc0 = \<lparr>collection_type = ''FeatureCollection'', features = [dest, route]\<rparr>"
    have r: "get_nearest db lat lng category = Inr fc0"
      unfolding dest_def route_def fc0_def by (rule get_nearest_road [OF found road])
    have ct: "collection_type fc0 = ''FeatureCollection''" by (simp add: fc0_def)
    have e: "\<not> empty_result fc0" by (simp add: empty_result_def fc0_def)
    have n: "network_result fc0"
      by (simp add: network_result_def fc0_def route_def road_route_props)
    have s: "\<not> straight_result fc0"
      by (simp add: straight_result_def fc0_def route_def road_route_props)
    have rp: "road_path_found db lat lng category"
      using road found by (simp add: road_path_found_def)
    from r ct e n s ff rp show ?thesis by blast
  next
    case raises
    have "\<not> cost_sum_present db lat lng category"
      using raises found by (simp add: cost_sum_present_def)
    with assms show ?thesis by simp
  next
    case fallback
    define route where "route = straight_line lng lat target_lng target_lat
                        (round_half_even (sql_st_distance db lng lat target_lng target_lat))"
    define fc0 where "fc0 = \<lparr>collection_type = ''FeatureCollection'', features = [dest, route]\<rparr>"
    have r: "get_nearest db lat lng category = Inr fc0"
      unfolding dest_def route_def fc0_def by (rule get_nearest_fallback [OF found fallback])
    have ct: "collection_type fc0 = ''FeatureCollection''" by (simp add: fc0_def)
    have e: "\<not> empty_result fc0" by (simp add: empty_result_def fc0_def)
    have n: "\<not> network_result fc0"
      by (simp add: network_result_def fc0_def route_def straight_line_props)
    have s: "straight_result fc0"
      by (simp add: straight_result_def fc0_def route_def straight_line_props)
    have rp: "\<not> road_path_found db lat lng category"
      using fallback found by (simp add: road_path_found_def split: option.splits prod.splits)
    from r ct e n s ff rp show ?thesis by blast
  qed
qed

theorem C6_counterexample:
  "get_nearest (example_db None (Some no_path)) 0 0 ''bank'' =
     Inr \<lparr>collection_type = ''FeatureCollection'', features = []\<rparr> \<and>
   get_nearest (example_db (Some example_bank) (Some example_path)) 0 0 ''bank'' =
     Inr \<lparr>collection_type = ''FeatureCollection'',
          features = [destination_point ''First Bank'' ''Bank'' 3 4,
                      road_route example_geojson 600]\<rparr> \<and>
   get_nearest (example_db (Some example_bank) (Some no_path)) 0 0 ''bank'' =
     Inr \<lparr>collection_type = ''FeatureCollection'',
          features = [destination_point ''First Bank'' ''Bank'' 3 4,
                      straight_line 0 0 3 4 234]\<rparr> \<and>
   map fst (properties (road_route example_geojson 600)) = [''type'', ''distance_msg''] \<and>
   map fst (properties (straight_line 0 0 3 4 234)) = [''type'', ''style'', ''distance_msg''] \<and>
   get_prop (road_route example_geojson 600) ''type'' = Some (PStr ''route'') \<and>
   get_prop (straight_line 0 0 3 4 234) ''type'' = Some (PStr ''route'')"
  by (simp only: example_empty example_road example_straight road_route_props
        straight_line_props simp_thms)
     (simp add: road_route_def straight_line_def)

theorem C6_witness:
  "(\<exists>fc. get_nearest (example_db None (Some no_path)) 0 0 ''bank'' = Inr fc \<and>
          empty_result fc \<and> \<not> network_result fc \<and> \<not> straight_result fc) \<and>
   (\<exists>fc. get_nearest (example_db (Some example_bank) (Some example_path)) 0 0 ''bank'' = Inr fc \<and>
          \<not> empty_result fc \<and> network_result fc \<and> \<not> straight_result fc) \<and>
   (\<exists>fc. get_nearest (example_db (Some example_bank) (Some no_path)) 0 0 ''bank'' = Inr fc \<and>
          \<not> empty_result fc \<and> \<not> network_result fc \<and> straight_result fc)"
proof -
  have c0: "cost_sum_present (example_db None (Some no_path)) 0 0 ''bank''"
    by (simp add: cost_sum_present_def example_db_simps)
  have c1: "cost_sum_present (example_db (Some example_bank) (Some example_path)) 0 0 ''bank''"
    by (simp add: cost_sum_present_def example_db_simps example_route_res example_bank_def
        example_path_def)
  have c2: "cost_sum_present (example_db (Some example_bank) (Some no_path)) 0 0 ''bank''"
    by (simp add: cost_sum_present_def example_db_simps example_route_res example_bank_def
        no_path_def)
  have f0: "\<not> facility_found (example_db None (Some no_path)) 0 0 ''bank''"
    by (simp add: facility_found_def example_db_simps)
  have p1: "road_path_found (example_db (Some example_bank) (Some example_path)) 0 0 ''bank''"
    by (simp add: road_path_found_def example_db_simps example_route_res example_bank_def
        example_path_def example_geojson_nonempty)
  have f2: "facility_found (example_db (Some example_bank) (Some no_path)) 0 0 ''bank''"
    by (simp add: facility_found_def example_db_simps)
  have p2: "\<not> road_path_found (example_db (Some example_bank) (Some no_path)) 0 0 ''bank''"
    by (simp add: road_path_found_def example_db_simps example_route_res example_bank_def
        no_path_def)
  from C6_one_of_three_outcomes [OF c0] f0 have g0:
    "\<exists>fc. get_nearest (example_db None (Some no_path)) 0 0 ''bank'' = Inr fc \<and>
          empty_result fc \<and> \<not> network_result fc \<and> \<not> straight_result fc"
    by blast
  from C6_one_of_three_outcomes [OF c1] p1 have g1:
    "\<exists>fc. get_nearest (example_db (Some example_bank) (Some example_path)) 0 0 ''bank'' = Inr fc \<and>
          \<not> empty_result fc \<and> network_result fc \<and> \<not> straight_result fc"
    by blast
  from C6_one_of_three_outcomes [OF c2] f2 p2 have g2:
    "\<exists>fc. get_nearest (example_db (Some example_bank) (Some no_path)) 0 0 ''bank'' = Inr fc \<and>
          \<not> empty_result fc \<and> \<not> network_result fc \<and> straight_result fc"
    by blast
  from g0 g1 g2 show ?thesis by (intro conjI)
qed

section \<open>Claims settled by evaluation\<close>

text \<open>
  C2. The builder is to come back normally on every collection of lines, malformed lines
  included, with every line accounted for. On a multi-part line whose first part has no
  coordinates while another part has some, the geometry is not empty, \<open>geom.coords\<close>
  raises NotImplementedError, and the handler's \<open>first_line.coords[0]\<close> raises
  IndexError, which nothing catches: the builder does not return.
\<close>

theorem C2_multipart_empty_part_raises:
  "build_topology_in_python
     \<lparr>geometry = [Some (MultiLineString [[], [(0, 0), (1, 1)]])], columns = []\<rparr>
   = Inl IndexError"
  by (simp add: build_topology_in_python_def process_row_def line_ends_def try_ends_def
      index_first_def index_last_def)

text \<open>
  C7. \<open>get_route\<close> is to return an empty result when the graph has no vertex to snap
  to. With an empty vertex table the snap query has no row, and \<open>cur.fetchone()[0]\<close>
  raises TypeError.
\<close>

theorem C7_get_route_empty_graph_raises:
  "get_route
     \<lparr>sql_find_closest = (\<lambda>search_term lng lat. None),
      sql_nearest_node = (\<lambda>lng lat. None),
      sql_route_union = (\<lambda>start_node end_node. Some (None, None)),
      sql_route = (\<lambda>start_node end_node.
         Some \<lparr>db_type = ''FeatureCollection'', db_features = None\<rparr>),
      sql_st_distance = (\<lambda>lng lat target_lng target_lat. 0)\<rparr>
     6 3 7 4
   = Inl TypeError"
  by (simp add: get_route_def)

end
